theory Spec2Isabelle
  imports Main
begin

section \<open>Federated type signatures\<close>

text \<open>
  The constructor \<^verbatim>\<open>FinalizerProcess.__init__\<close> of
  \<^verbatim>\<open>tensorflow_federated/python/learning/framework/finalizers.py\<close> inspects the type
  signatures of two computations and raises on the first requirement that is not met. It
  computes nothing else, so the embedding is: the type descriptors as a datatype, every
  \<^verbatim>\<open>raise\<close> (and every exception of the Python run time the body can run into) as a value
  of the datatype \<open>error\<close>, and the constructor as a function into \<open>error + process\<close>.

  The type descriptors, the helper \<^verbatim>\<open>structure.flatten\<close>, the error classes of
  \<^verbatim>\<open>core/templates/errors.py\<close> and the base class \<^verbatim>\<open>MeasuredProcess\<close> belong to the
  same repository but are not part of the file under verification. The queries the
  constructor makes on them are modelled below; the one query whose algorithm the
  specification leaves open, \<^verbatim>\<open>is_assignable_from\<close>, is a parameter of the constructor.
\<close>

text \<open>
  Modelled from the spec: the placement literals of \<^verbatim>\<open>core/impl/types/placements.py\<close>,
  which is not among the sources. The specification asks for a placement enumeration with
  at least the server and the clients; the source names \<^verbatim>\<open>placements.SERVER\<close>.
\<close>

datatype placement = SERVER | CLIENTS

text \<open>
  Modelled from the spec: the Python classes used as containers of structure types
  (\<^verbatim>\<open>model_utils.ModelWeights\<close> and the output class of the base process), which are not
  among the sources. The specification calls the model weights container a marker that
  tags a structure. The constructor compares a container with \<^verbatim>\<open>model_utils.ModelWeights\<close>
  by identity (\<^verbatim>\<open>is not\<close>); a class is identified here by its constructor, and
  \<open>PyClass name bases\<close> is any other class, with its base classes.
\<close>

datatype py_class = ModelWeights | MeasuredProcessOutput | PyClass string "py_class list"

fun issubclass :: "py_class \<Rightarrow> py_class \<Rightarrow> bool" where
  "issubclass (PyClass n bases) c = (PyClass n bases = c \<or> list_ex (\<lambda>b. issubclass b c) bases)"
| "issubclass ModelWeights c = (c = ModelWeights)"
| "issubclass MeasuredProcessOutput c = (c = MeasuredProcessOutput)"

text \<open>
  Modelled from the spec: the type descriptors of \<^verbatim>\<open>core/impl/types/computation_types.py\<close>,
  which is not among the sources, with the queries the constructor calls on them. The
  specification describes a type signature as metadata giving the placement, the structure
  (ordered, optionally named fields) and the member type of a value, and a federated type
  as a type annotated with a placement. These are the kinds of type the constructor can
  tell apart: a federated type (member, placement and the \<^verbatim>\<open>all_equal\<close> bit, which the
  constructor never reads), a structure of optionally named elements, a structure with a
  Python container, and types that are none of these. Tensor types (element type and
  shape, \<open>None\<close> for an unknown dimension) and sequence types stand for the latter: every
  query of the constructor answers alike on all of them.
\<close>

datatype tff_type =
    TensorType string "nat option list"
  | SequenceType tff_type
  | StructType "(string option \<times> tff_type) list"
  | StructWithPythonType "(string option \<times> tff_type) list" py_class
  | FederatedType tff_type placement bool

fun is_federated :: "tff_type \<Rightarrow> bool" where
  "is_federated (FederatedType m p ae) = True"
| "is_federated t = False"

fun is_struct :: "tff_type \<Rightarrow> bool" where
  "is_struct (StructType fs) = True"
| "is_struct (StructWithPythonType fs c) = True"
| "is_struct t = False"

fun is_struct_with_python :: "tff_type \<Rightarrow> bool" where
  "is_struct_with_python (StructWithPythonType fs c) = True"
| "is_struct_with_python t = False"

text \<open>The elements of a structure, in order: what \<^verbatim>\<open>len\<close>, indexing and iteration see.\<close>

fun elements :: "tff_type \<Rightarrow> (string option \<times> tff_type) list" where
  "elements (StructType fs) = fs"
| "elements (StructWithPythonType fs c) = fs"
| "elements t = []"

text \<open>\<^verbatim>\<open>python_container\<close>, a property of structures with a Python container only.\<close>

fun python_container :: "tff_type \<Rightarrow> py_class option" where
  "python_container (StructWithPythonType fs c) = Some c"
| "python_container t = None"

text \<open>
  Modelled from the spec: \<^verbatim>\<open>structure.flatten\<close> of \<^verbatim>\<open>common_libs/structure.py\<close>, which
  is not among the sources. The specification speaks of the leaf types of the flattened
  parameter and result types: the leaves of a nested structure, left to right. A value
  that is not a structure is its own single leaf; a federated type is not a structure,
  whatever its member is.
\<close>

fun flatten :: "tff_type \<Rightarrow> tff_type list" where
  "flatten (StructType fs) = concat (map (\<lambda>f. flatten (snd f)) fs)"
| "flatten (StructWithPythonType fs c) = concat (map (\<lambda>f. flatten (snd f)) fs)"
| "flatten t = [t]"

text \<open>The type signature of a computation: an optional parameter type and a result type.\<close>

record function_type =
  parameter :: "tff_type option"
  result :: tff_type

text \<open>A computation: an identity (which stands for its body) and its type signature.\<close>

record computation =
  fn_name :: string
  type_signature :: function_type

section \<open>Errors and their messages\<close>

text \<open>
  A message is the sequence of the pieces of the formatted string: literal text, a line
  break, and the renderings \<^verbatim>\<open>str(t)\<close> of a type, of a function type and of a number.
  A message embeds a type when the rendering of that type is one of its pieces.
\<close>

datatype frag = Lit string | NL | StrType tff_type | StrFn function_type | StrNat nat

type_synonym message = "frag list"

text \<open>
  The exceptions a construction can end with: those the constructor raises itself, those
  of the base class, and the two the Python run time raises inside the body (a failed
  attribute lookup, and \<^verbatim>\<open>str.join\<close> on an item that is not a string). \<open>TypeError\<close> is
  the built-in class itself: the two classes the source derives from it, and any class of
  the \<^verbatim>\<open>errors\<close> module that does, are different values.
\<close>

datatype error =
    TemplateInitFnParamNotEmptyError
  | TemplateStateNotAssignableError
  | TemplateNotMeasuredProcessOutputError
  | TemplateNotFederatedError message
  | TemplatePlacementError message
  | TemplateNextFnNumArgsError message
  | ModelWeightsTypeError message
  | FinalizerResultTypeError message
  | AttributeError
  | TypeError

text \<open>
  \<^verbatim>\<open>sep.join(items)\<close>: every item must be a string; an item of any other class raises
  the built-in \<^verbatim>\<open>TypeError\<close>.
\<close>

datatype py_item = PyStr message | PyType tff_type

fun join :: "message \<Rightarrow> py_item list \<Rightarrow> error + message" where
  "join sep [] = Inr []"
| "join sep (PyType t # xs) = Inl TypeError"
| "join sep [PyStr s] = Inr s"
| "join sep (PyStr s # x # xs) =
     (case join sep (x # xs) of Inl e \<Rightarrow> Inl e | Inr r \<Rightarrow> Inr (s @ sep @ r))"

section \<open>Attribute lookup on type descriptors\<close>

text \<open>
  Modelled from the spec: attribute lookup on the type descriptors, which are not among the
  sources. The specification gives the step function's result the three named fields
  state, result and measurements. A structure type answers an attribute lookup by name
  with the element of that name, and raises \<^verbatim>\<open>AttributeError\<close> when it has none; this is
  how the constructor reads the fields \<^verbatim>\<open>result\<close> and \<^verbatim>\<open>measurements\<close>.
\<close>

fun named_field :: "(string option \<times> tff_type) list \<Rightarrow> string \<Rightarrow> tff_type option" where
  "named_field [] name = None"
| "named_field (f # fs) name = (if fst f = Some name then Some (snd f) else named_field fs name)"

text \<open>
  The attributes the constructor reads whose value is a type: \<^verbatim>\<open>member\<close> of a
  federated type, or a named element of a structure. Any other lookup fails.
\<close>

fun getattr :: "tff_type \<Rightarrow> string \<Rightarrow> error + tff_type" where
  "getattr (FederatedType m p ae) name = (if name = ''member'' then Inr m else Inl AttributeError)"
| "getattr (StructType fs) name =
     (case named_field fs name of Some t \<Rightarrow> Inr t | None \<Rightarrow> Inl AttributeError)"
| "getattr (StructWithPythonType fs c) name =
     (case named_field fs name of Some t \<Rightarrow> Inr t | None \<Rightarrow> Inl AttributeError)"
| "getattr t name = Inl AttributeError"

text \<open>
  The attribute \<^verbatim>\<open>placement\<close>. On a federated type it is a placement literal; on a
  structure it is the element named \<^verbatim>\<open>placement\<close> if there is one, a type, which is
  different from every placement literal; any other type has no such attribute.
\<close>

datatype py_value = PlacementLiteral placement | TypeObject tff_type

fun getattr_placement :: "tff_type \<Rightarrow> error + py_value" where
  "getattr_placement (FederatedType m p ae) = Inr (PlacementLiteral p)"
| "getattr_placement (StructType fs) =
     (case named_field fs ''placement'' of Some t \<Rightarrow> Inr (TypeObject t) | None \<Rightarrow> Inl AttributeError)"
| "getattr_placement (StructWithPythonType fs c) =
     (case named_field fs ''placement'' of Some t \<Rightarrow> Inr (TypeObject t) | None \<Rightarrow> Inl AttributeError)"
| "getattr_placement t = Inl AttributeError"

section \<open>The base class\<close>

text \<open>
  Modelled from the spec: the object of the base class, which exposes an initializer
  callable and a step callable.
\<close>

record process =
  initialize :: computation
  next_step :: computation

text \<open>
  Modelled from the spec: the state type the step function consumes and the state type it
  produces, as the base class reads them. Consumed is the first element of the parameter
  structure (the constructor passes \<^verbatim>\<open>next_is_multi_arg=True\<close>), or the whole parameter
  when that is not a structure; produced is the field \<^verbatim>\<open>state\<close> of the result.
\<close>

definition state_consumed :: "function_type \<Rightarrow> tff_type option" where
  "state_consumed f =
     (case parameter f of
        None \<Rightarrow> None
      | Some p \<Rightarrow>
          if is_struct p then (case elements p of [] \<Rightarrow> None | e # es \<Rightarrow> Some (snd e))
          else Some p)"

definition state_produced :: "function_type \<Rightarrow> tff_type option" where
  "state_produced f = named_field (elements (result f)) ''state''"

text \<open>
  Modelled from the spec: the constructor of the base class \<^verbatim>\<open>MeasuredProcess\<close>
  (\<^verbatim>\<open>core/templates/measured_process.py\<close>, called at line 63), which is not among the
  sources. The specification says of it: a process pairs a zero-argument initializer with
  a step function; the state type returned by the initializer must equal the state type
  consumed and produced by the step function, which the base class enforces; the step
  function's result has the three named fields state, result and measurements; and the
  object exposes the initializer and the step callable. The comment at lines 87-89 of the
  source names the error of the state check, \<^verbatim>\<open>TemplateStateNotAssignableError\<close>; the
  other two error names are those of the repository's \<^verbatim>\<open>errors\<close> module.
\<close>

definition MeasuredProcess_init :: "computation \<Rightarrow> computation \<Rightarrow> error + process" where
  "MeasuredProcess_init initialize_fn next_fn =
     (if parameter (type_signature initialize_fn) \<noteq> None then Inl TemplateInitFnParamNotEmptyError
      else if state_consumed (type_signature next_fn) \<noteq> Some (result (type_signature initialize_fn))
            \<or> state_produced (type_signature next_fn) \<noteq> Some (result (type_signature initialize_fn))
      then Inl TemplateStateNotAssignableError
      else if \<not> (is_struct (result (type_signature next_fn))
                 \<and> map fst (elements (result (type_signature next_fn)))
                     = [Some ''state'', Some ''result'', Some ''measurements''])
      then Inl TemplateNotMeasuredProcessOutputError
      else Inr \<lparr>initialize = initialize_fn, next_step = next_fn\<rparr>)"

section \<open>The error messages of the constructor\<close>

text \<open>One definition for each \<^verbatim>\<open>raise\<close> of the constructor, in the order of the source.\<close>

definition init_not_federated_msg :: "tff_type \<Rightarrow> message" where
  \<open>init_not_federated_msg t =
     [Lit ''Provided `initialize_fn` must return a federated type, but found return type:'', NL,
      StrType t, NL,
      Lit ''Tip: If you see a collection of federated types, try wrapping the returned value in `tff.federated_zip` before returning.'']\<close>

definition next_not_federated_msg :: "function_type \<Rightarrow> message \<Rightarrow> message" where
  \<open>next_not_federated_msg sig offending_types =
     [Lit ''Provided `next_fn` must be a *federated* computation, that is, operate on `tff.FederatedType`s, but found'', NL,
      Lit ''next_fn with type signature:'', NL,
      StrFn sig, NL,
      Lit ''The non-federated types are:'', NL, Lit '' ''] @ offending_types @ [Lit ''.'']\<close>

definition state_placement_msg :: "tff_type \<Rightarrow> message" where
  \<open>state_placement_msg t =
     [Lit ''The state controlled by an `FinalizerProcess` must be placed at the SERVER, but found type: '',
      StrType t, Lit ''.'']\<close>

definition not_a_struct_msg :: "tff_type \<Rightarrow> message" where
  \<open>not_a_struct_msg next_fn_param =
     [Lit ''The `next_fn` must have exactly two input arguments, but found the following input type which is not a Struct: '',
      StrType next_fn_param, Lit ''.'']\<close>

definition num_args_msg :: "nat \<Rightarrow> message \<Rightarrow> message" where
  \<open>num_args_msg n next_param_str =
     [Lit ''The `next_fn` must have exactly three input arguments, but found '',
      StrNat n, Lit '' input arguments:'', NL] @ next_param_str\<close>

definition second_arg_placement_msg :: "tff_type \<Rightarrow> message" where
  \<open>second_arg_placement_msg model_weights_param =
     [Lit ''The second input argument of `next_fn` must be placed at SERVER but found '',
      StrType model_weights_param, Lit ''.'']\<close>

definition model_weights_msg :: "tff_type \<Rightarrow> message" where
  \<open>model_weights_msg model_weights_param =
     [Lit ''The second input argument of `next_fn` must have the `tff.learning.ModelWeights` container but found '',
      StrType model_weights_param]\<close>

definition third_arg_placement_msg :: "tff_type \<Rightarrow> message" where
  \<open>third_arg_placement_msg update_from_clients_param =
     [Lit ''The third input argument of `next_fn` must be placed at SERVER but found '',
      StrType update_from_clients_param, Lit ''.'']\<close>

definition result_placement_msg :: "tff_type \<Rightarrow> message" where
  \<open>result_placement_msg t =
     [Lit ''The "result" attribute of the return type of `next_fn` must be placed at SERVER, but found '',
      StrType t, Lit ''.'']\<close>

definition result_type_msg :: "tff_type \<Rightarrow> tff_type \<Rightarrow> message" where
  \<open>result_type_msg second_member result_member =
     [Lit ''The second input argument of `next_fn` must match the "result" attribute of the return type of `next_fn`. Found:'', NL,
      Lit ''Second input argument: '', StrType second_member, NL,
      Lit ''Result attribute: '', StrType result_member, Lit ''.'']\<close>

definition measurements_placement_msg :: "tff_type \<Rightarrow> message" where
  \<open>measurements_placement_msg t =
     [Lit ''The "measurements" attribute of return type of `next_fn` must be placed at SERVER, but found '',
      StrType t, Lit ''.'']\<close>

section \<open>The constructor\<close>

text \<open>
  \<^verbatim>\<open>FinalizerProcess.__init__(self, initialize_fn, next_fn)\<close>, lines 62-134, statement by
  statement. The result is \<open>Inl\<close> of the exception that ends the construction, or \<open>Inr\<close> of
  the constructed object. The first argument is the type system's \<^verbatim>\<open>is_assignable_from\<close>:
  \<open>is_assignable_from t s\<close> is \<^verbatim>\<open>t.is_assignable_from(s)\<close>.

  Where the source reads an attribute, the model reads it with \<open>getattr\<close> or
  \<open>getattr_placement\<close> and passes a failed lookup on. A step function without a parameter
  has \<^verbatim>\<open>None\<close> as its parameter type; \<^verbatim>\<open>structure.flatten\<close> returns it as its only leaf, and
  the call \<^verbatim>\<open>is_federated()\<close> on it at line 74 is a failed lookup.
\<close>

definition FinalizerProcess_init ::
  "(tff_type \<Rightarrow> tff_type \<Rightarrow> bool) \<Rightarrow> computation \<Rightarrow> computation \<Rightarrow> error + process" where
  "FinalizerProcess_init is_assignable_from initialize_fn next_fn =
    \<comment> \<open>line 63\<close>
    (case MeasuredProcess_init initialize_fn next_fn of
       Inl e \<Rightarrow> Inl e
     | Inr self \<Rightarrow>
    \<comment> \<open>lines 65-70\<close>
    (if \<not> is_federated (result (type_signature initialize_fn)) then
      Inl (TemplateNotFederatedError
            (init_not_federated_msg (result (type_signature initialize_fn))))
    else
    \<comment> \<open>lines 71-81\<close>
    (case parameter (type_signature next_fn) of
      None \<Rightarrow> Inl AttributeError
    | Some next_fn_param \<Rightarrow>
    (let next_types = flatten next_fn_param @ flatten (result (type_signature next_fn)) in
    if \<not> list_all is_federated next_types then
      (case join [NL, Lit ''- ''] (map PyType (filter (\<lambda>t. \<not> is_federated t) next_types)) of
         Inl e \<Rightarrow> Inl e
       | Inr offending_types \<Rightarrow>
           Inl (TemplateNotFederatedError
                 (next_not_federated_msg (type_signature next_fn) offending_types)))
    else
    \<comment> \<open>lines 83-86\<close>
    (case getattr_placement (result (type_signature initialize_fn)) of
      Inl e \<Rightarrow> Inl e
    | Inr init_placement \<Rightarrow>
    (if init_placement \<noteq> PlacementLiteral SERVER then
      Inl (TemplatePlacementError (state_placement_msg (result (type_signature initialize_fn))))
    else
    \<comment> \<open>lines 91-100\<close>
    if \<not> is_struct next_fn_param then
      Inl (TemplateNextFnNumArgsError (not_a_struct_msg next_fn_param))
    else if length (elements next_fn_param) \<noteq> 3 then
      (case join [NL, Lit ''- ''] (map (\<lambda>f. PyStr [StrType (snd f)]) (elements next_fn_param)) of
         Inl e \<Rightarrow> Inl e
       | Inr next_param_str \<Rightarrow>
           Inl (TemplateNextFnNumArgsError
                 (num_args_msg (length (elements next_fn_param)) next_param_str)))
    else
    \<comment> \<open>lines 101-117\<close>
    (let model_weights_param = snd (elements next_fn_param ! 1);
         update_from_clients_param = snd (elements next_fn_param ! 2) in
    (case getattr_placement model_weights_param of
      Inl e \<Rightarrow> Inl e
    | Inr second_placement \<Rightarrow>
    (if second_placement \<noteq> PlacementLiteral SERVER then
      Inl (TemplatePlacementError (second_arg_placement_msg model_weights_param))
    else
    (case getattr model_weights_param ''member'' of
      Inl e \<Rightarrow> Inl e
    | Inr weights_member \<Rightarrow>
    (if \<not> is_struct_with_python weights_member
        \<or> python_container weights_member \<noteq> Some ModelWeights then
      Inl (ModelWeightsTypeError (model_weights_msg model_weights_param))
    else
    (case getattr_placement update_from_clients_param of
      Inl e \<Rightarrow> Inl e
    | Inr third_placement \<Rightarrow>
    (if third_placement \<noteq> PlacementLiteral SERVER then
      Inl (TemplatePlacementError (third_arg_placement_msg update_from_clients_param))
    else
    \<comment> \<open>lines 119-130\<close>
    (case getattr (result (type_signature next_fn)) ''result'' of
      Inl e \<Rightarrow> Inl e
    | Inr result_attr \<Rightarrow>
    (case getattr_placement result_attr of
      Inl e \<Rightarrow> Inl e
    | Inr result_placement \<Rightarrow>
    (if result_placement \<noteq> PlacementLiteral SERVER then
      Inl (TemplatePlacementError (result_placement_msg result_attr))
    else
    (case getattr result_attr ''member'' of
      Inl e \<Rightarrow> Inl e
    | Inr result_member \<Rightarrow>
    (if \<not> is_assignable_from weights_member result_member then
      Inl (FinalizerResultTypeError (result_type_msg weights_member result_member))
    else
    \<comment> \<open>lines 131-134\<close>
    (case getattr (result (type_signature next_fn)) ''measurements'' of
      Inl e \<Rightarrow> Inl e
    | Inr measurements_attr \<Rightarrow>
    (case getattr_placement measurements_attr of
      Inl e \<Rightarrow> Inl e
    | Inr measurements_placement \<Rightarrow>
    (if measurements_placement \<noteq> PlacementLiteral SERVER then
      Inl (TemplatePlacementError (measurements_placement_msg measurements_attr))
    else Inr self)))))))))))))))))))))"

section \<open>An assignability relation\<close>

text \<open>
  Modelled from the spec: the assignability query \<^verbatim>\<open>Type.is_assignable_from\<close> of the
  type system (\<^verbatim>\<open>core/impl/types/computation_types.py\<close>), which is not among the sources.
  The specification describes it as directed (the declared weights type can accept the
  produced result; a result type can be a strict subtype that is not assignable) and
  leaves open whether it is type equality or structural subtyping. Every theorem about the
  constructor below holds for any relation. The relation defined here is used where a
  concrete one is needed; it is structural: a tensor type accepts a tensor type of the same
  element type whose shape fits, an unknown dimension accepting any; structures are
  compared element by element, with equal names; federated types need equal placements,
  assignable members, and an all-equal target an all-equal source.
\<close>

fun dim_assignable :: "nat option \<Rightarrow> nat option \<Rightarrow> bool" where
  "dim_assignable None s = True"
| "dim_assignable (Some d) s = (s = Some d)"

fun assignable :: "tff_type \<Rightarrow> tff_type \<Rightarrow> bool"
  and assignable_elements ::
    "(string option \<times> tff_type) list \<Rightarrow> (string option \<times> tff_type) list \<Rightarrow> bool" where
  "assignable (TensorType d sh) src =
     (case src of TensorType d' sh' \<Rightarrow> d = d' \<and> list_all2 dim_assignable sh sh' | _ \<Rightarrow> False)"
| "assignable (SequenceType t) src =
     (case src of SequenceType s \<Rightarrow> assignable t s | _ \<Rightarrow> False)"
| "assignable (StructType fs) src = (is_struct src \<and> assignable_elements fs (elements src))"
| "assignable (StructWithPythonType fs c) src =
     (is_struct src \<and> assignable_elements fs (elements src))"
| "assignable (FederatedType m p ae) src =
     (case src of FederatedType m' p' ae' \<Rightarrow> assignable m m' \<and> p = p' \<and> (ae' \<or> \<not> ae)
      | _ \<Rightarrow> False)"
| "assignable_elements [] ss = (ss = [])"
| "assignable_elements (f # fs) ss =
     (case ss of [] \<Rightarrow> False
      | s # ss' \<Rightarrow> fst s = fst f \<and> assignable (snd f) (snd s) \<and> assignable_elements fs ss')"

section \<open>Notions used to state the properties\<close>

text \<open>
  What \<open>join\<close> returns on strings: the items with the separator between neighbours.
\<close>

fun joined :: "message \<Rightarrow> message list \<Rightarrow> message" where
  "joined sep [] = []"
| "joined sep [s] = s"
| "joined sep (s # t # ts) = s @ sep @ joined sep (t # ts)"

text \<open>
  A step function that differs from \<open>next_fn\<close> in the type of its third parameter element
  only; the element keeps its name, and a container of the parameter structure is kept.
\<close>

fun with_elements :: "tff_type \<Rightarrow> (string option \<times> tff_type) list \<Rightarrow> tff_type" where
  "with_elements (StructType fs) fs' = StructType fs'"
| "with_elements (StructWithPythonType fs c) fs' = StructWithPythonType fs' c"
| "with_elements t fs' = t"

definition with_third_parameter :: "computation \<Rightarrow> tff_type \<Rightarrow> computation" where
  "with_third_parameter next_fn t =
     next_fn\<lparr>type_signature := (type_signature next_fn)
       \<lparr>parameter :=
          map_option (\<lambda>P. with_elements P ((elements P)[2 := (fst (elements P ! 2), t)]))
            (parameter (type_signature next_fn))\<rparr>\<rparr>"

subsection \<open>The validation sequence as a list of checks\<close>

text \<open>
  The requirements in the words of the specification, each a predicate on the pair of
  computations that is false where its subject does not exist. The parameter must be a
  structure and must have three elements are two checks, as the source raises for them
  apart; so are the placement and the container of the second parameter element. The
  assignability check reads: the member type of the second parameter element is
  assignable from the member type of the result field.
\<close>

datatype check =
    InitFederated
  | NextFederated
  | StateAtServer
  | ParameterIsStruct
  | ParameterHasThree
  | SecondAtServer
  | SecondIsModelWeights
  | ThirdAtServer
  | ResultAtServer
  | ResultAssignable
  | MeasurementsAtServer

definition validation_sequence :: "check list" where
  "validation_sequence =
     [InitFederated, NextFederated, StateAtServer, ParameterIsStruct, ParameterHasThree,
      SecondAtServer, SecondIsModelWeights, ThirdAtServer, ResultAtServer, ResultAssignable,
      MeasurementsAtServer]"

fun placed_at_server :: "tff_type \<Rightarrow> bool" where
  "placed_at_server (FederatedType m p ae) = (p = SERVER)"
| "placed_at_server t = False"

fun member_of :: "tff_type \<Rightarrow> tff_type option" where
  "member_of (FederatedType m p ae) = Some m"
| "member_of t = None"

definition parameter_element :: "computation \<Rightarrow> nat \<Rightarrow> tff_type option" where
  "parameter_element next_fn k =
     (case parameter (type_signature next_fn) of
        None \<Rightarrow> None
      | Some P \<Rightarrow> if k < length (elements P) then Some (snd (elements P ! k)) else None)"

definition result_field :: "computation \<Rightarrow> string \<Rightarrow> tff_type option" where
  "result_field next_fn name = named_field (elements (result (type_signature next_fn))) name"

fun holds ::
  "(tff_type \<Rightarrow> tff_type \<Rightarrow> bool) \<Rightarrow> check \<Rightarrow> computation \<Rightarrow> computation \<Rightarrow> bool" where
  "holds asg InitFederated i n = is_federated (result (type_signature i))"
| "holds asg NextFederated i n =
     (case parameter (type_signature n) of
        None \<Rightarrow> False
      | Some P \<Rightarrow> list_all is_federated (flatten P @ flatten (result (type_signature n))))"
| "holds asg StateAtServer i n = placed_at_server (result (type_signature i))"
| "holds asg ParameterIsStruct i n =
     (case parameter (type_signature n) of None \<Rightarrow> False | Some P \<Rightarrow> is_struct P)"
| "holds asg ParameterHasThree i n =
     (case parameter (type_signature n) of None \<Rightarrow> False | Some P \<Rightarrow> length (elements P) = 3)"
| "holds asg SecondAtServer i n =
     (case parameter_element n 1 of None \<Rightarrow> False | Some t \<Rightarrow> placed_at_server t)"
| "holds asg SecondIsModelWeights i n =
     (case Option.bind (parameter_element n 1) member_of of
        None \<Rightarrow> False
      | Some w \<Rightarrow> is_struct_with_python w \<and> python_container w = Some ModelWeights)"
| "holds asg ThirdAtServer i n =
     (case parameter_element n 2 of None \<Rightarrow> False | Some t \<Rightarrow> placed_at_server t)"
| "holds asg ResultAtServer i n =
     (case result_field n ''result'' of None \<Rightarrow> False | Some t \<Rightarrow> placed_at_server t)"
| "holds asg ResultAssignable i n =
     (case Option.bind (parameter_element n 1) member_of of
        None \<Rightarrow> False
      | Some w \<Rightarrow>
          (case Option.bind (result_field n ''result'') member_of of
             None \<Rightarrow> False
           | Some r \<Rightarrow> asg w r))"
| "holds asg MeasurementsAtServer i n =
     (case result_field n ''measurements'' of None \<Rightarrow> False | Some t \<Rightarrow> placed_at_server t)"

definition earliest_violated ::
  "(tff_type \<Rightarrow> tff_type \<Rightarrow> bool) \<Rightarrow> computation \<Rightarrow> computation \<Rightarrow> check option" where
  "earliest_violated asg i n = find (\<lambda>c. \<not> holds asg c i n) validation_sequence"

subsection \<open>Example computations\<close>

definition at_server :: "tff_type \<Rightarrow> tff_type" where
  "at_server t = FederatedType t SERVER True"

definition at_clients :: "tff_type \<Rightarrow> tff_type" where
  "at_clients t = FederatedType t CLIENTS False"

definition int32 :: tff_type where
  "int32 = TensorType ''int32'' []"

definition float32 :: tff_type where
  "float32 = TensorType ''float32'' []"

text \<open>The structure type of \<^verbatim>\<open>ModelWeights(trainable, non_trainable=())\<close>, with any container.\<close>

definition weights_struct :: "py_class \<Rightarrow> tff_type \<Rightarrow> tff_type" where
  "weights_struct c trainable =
     StructWithPythonType [(Some ''trainable'', trainable), (Some ''non_trainable'', StructType [])] c"

definition measured_process_output :: "tff_type \<Rightarrow> tff_type \<Rightarrow> tff_type \<Rightarrow> tff_type" where
  "measured_process_output s r m =
     StructWithPythonType [(Some ''state'', s), (Some ''result'', r), (Some ''measurements'', m)]
       MeasuredProcessOutput"

definition initialize_returning :: "tff_type \<Rightarrow> computation" where
  "initialize_returning s =
     \<lparr>fn_name = ''initialize_fn'', type_signature = \<lparr>parameter = None, result = s\<rparr>\<rparr>"

text \<open>
  A step function from its parameter type and the types of the three fields of its result.
\<close>

definition next_taking :: "tff_type \<Rightarrow> tff_type \<Rightarrow> tff_type \<Rightarrow> tff_type \<Rightarrow> computation" where
  "next_taking p s r m =
     \<lparr>fn_name = ''next_fn'',
      type_signature = \<lparr>parameter = Some p, result = measured_process_output s r m\<rparr>\<rparr>"

definition arguments :: "tff_type list \<Rightarrow> tff_type" where
  "arguments ts = StructType (map (Pair None) ts)"

text \<open>
  The pair of the class documentation: state \<^verbatim>\<open>int32@SERVER\<close>, model weights with a
  \<^verbatim>\<open>float32\<close> trainable part, a \<^verbatim>\<open>float32@SERVER\<close> update and \<^verbatim>\<open>int32@SERVER\<close>
  measurements.
\<close>

definition test_initialize_fn :: computation where
  "test_initialize_fn = initialize_returning (at_server int32)"

definition test_next_fn :: computation where
  "test_next_fn =
     next_taking
       (arguments [at_server int32, at_server (weights_struct ModelWeights float32), at_server float32])
       (at_server int32) (at_server (weights_struct ModelWeights float32)) (at_server int32)"

text \<open>A vector of unknown length and a vector of length three.\<close>

definition float32_vector :: "nat option \<Rightarrow> tff_type" where
  "float32_vector n = TensorType ''float32'' [n]"

text \<open>
  A step function whose second parameter element has model weights \<open>w\<close> and whose result
  field has model weights \<open>r\<close>, everything placed at the server.
\<close>

definition next_finalizing :: "tff_type \<Rightarrow> tff_type \<Rightarrow> computation" where
  "next_finalizing w r =
     next_taking (arguments [at_server int32, at_server w, at_server float32])
       (at_server int32) (at_server r) (at_server int32)"

lemmas examples = at_server_def at_clients_def int32_def float32_def weights_struct_def
  measured_process_output_def initialize_returning_def next_taking_def arguments_def
  test_initialize_fn_def test_next_fn_def float32_vector_def next_finalizing_def

lemmas base_class = MeasuredProcess_init_def state_consumed_def state_produced_def

section \<open>Facts about the helpers\<close>

lemma getattr_placement_server:
  "getattr_placement t = Inr (PlacementLiteral SERVER) \<longleftrightarrow> (\<exists>m ae. t = FederatedType m SERVER ae)"
  by (cases t) (auto split: option.splits)

lemma length_three: "length xs = 3 \<longleftrightarrow> (\<exists>a b c. xs = [a, b, c])"
  by (auto simp: numeral_3_eq_3 length_Suc_conv)

lemma model_weights_container:
  "is_struct_with_python w \<and> python_container w = Some ModelWeights
     \<longleftrightarrow> (\<exists>fs. w = StructWithPythonType fs ModelWeights)"
  by (cases w) auto

text \<open>A list of type objects that is not empty cannot be joined.\<close>

lemma join_types: "xs \<noteq> [] \<Longrightarrow> join sep (map PyType xs) = Inl TypeError"
  by (cases xs) simp_all

lemma offending_nonempty: "\<not> list_all P xs \<Longrightarrow> filter (\<lambda>t. \<not> P t) xs \<noteq> []"
  by (auto simp: list_all_iff filter_empty_conv)

lemma join_strings: "join sep (map PyStr ss) = Inr (joined sep ss)"
  by (induction sep ss rule: joined.induct) simp_all

lemma join_rendered:
  "join sep (map (\<lambda>f. PyStr [StrType (snd f)]) fs)
     = Inr (joined sep (map (\<lambda>f. [StrType (snd f)]) fs))"
  using join_strings [of sep "map (\<lambda>f. [StrType (snd f)]) fs"] by (simp add: comp_def)

lemma joined_embeds: "s \<in> set ss \<Longrightarrow> set s \<subseteq> set (joined sep ss)"
  by (induction sep ss rule: joined.induct) auto

lemma getattr_error: "getattr t name = Inl e \<Longrightarrow> e = AttributeError"
  by (cases t) (auto split: option.splits if_splits)

lemma getattr_placement_error: "getattr_placement t = Inl e \<Longrightarrow> e = AttributeError"
  by (cases t) (auto split: option.splits)

lemma struct_flatten:
  "is_struct t \<Longrightarrow> flatten t = concat (map (\<lambda>f. flatten (snd f)) (elements t))"
  by (cases t) simp_all

lemma struct_getattr:
  "is_struct t \<Longrightarrow>
   getattr t name
     = (case named_field (elements t) name of Some u \<Rightarrow> Inr u | None \<Rightarrow> Inl AttributeError)"
  by (cases t) simp_all

lemma with_elements_struct:
  "is_struct t \<Longrightarrow> is_struct (with_elements t fs) \<and> elements (with_elements t fs) = fs"
  by (cases t) simp_all

lemma leaf_flatten: "\<not> is_struct t \<Longrightarrow> flatten t = [t]"
  by (cases t) simp_all

lemma federated_cases: "is_federated t \<Longrightarrow> \<exists>m p ae. t = FederatedType m p ae"
  by (cases t) simp_all

lemmas sequence = earliest_violated_def validation_sequence_def parameter_element_def
  result_field_def

text \<open>What the base class accepts, and what it constructs.\<close>

lemma base_accepts_iff:
  "MeasuredProcess_init i n = Inr self \<longleftrightarrow>
     parameter (type_signature i) = None
     \<and> state_consumed (type_signature n) = Some (result (type_signature i))
     \<and> state_produced (type_signature n) = Some (result (type_signature i))
     \<and> is_struct (result (type_signature n))
     \<and> map fst (elements (result (type_signature n)))
         = [Some ''state'', Some ''result'', Some ''measurements'']
     \<and> self = \<lparr>initialize = i, next_step = n\<rparr>"
  by (auto simp: MeasuredProcess_init_def)

section \<open>The constructor, raise by raise\<close>

text \<open>
  One lemma for each way the constructor ends. The hypotheses of a lemma say that the
  statements before the one it is about have been passed; the parameter elements and the
  result fields that have been read are federated types.
\<close>

lemma raises_base:
  "MeasuredProcess_init initialize_fn next_fn = Inl e \<Longrightarrow>
   FinalizerProcess_init is_assignable_from initialize_fn next_fn = Inl e"
  by (simp add: FinalizerProcess_init_def)

lemma raises_init_not_federated:
  assumes "MeasuredProcess_init initialize_fn next_fn = Inr self"
    and "\<not> is_federated (result (type_signature initialize_fn))"
  shows "FinalizerProcess_init is_assignable_from initialize_fn next_fn =
    Inl (TemplateNotFederatedError (init_not_federated_msg (result (type_signature initialize_fn))))"
  using assms by (simp add: FinalizerProcess_init_def)

lemma raises_join_type_error:
  assumes "MeasuredProcess_init initialize_fn next_fn = Inr self"
    and "is_federated (result (type_signature initialize_fn))"
    and "parameter (type_signature next_fn) = Some next_fn_param"
    and "\<not> list_all is_federated (flatten next_fn_param @ flatten (result (type_signature next_fn)))"
  shows "FinalizerProcess_init is_assignable_from initialize_fn next_fn = Inl TypeError"
proof -
  have "join [NL, Lit ''- '']
         (map PyType (filter (\<lambda>t. \<not> is_federated t)
            (flatten next_fn_param @ flatten (result (type_signature next_fn))))) = Inl TypeError"
    using assms(4) by (intro join_types offending_nonempty)
  with assms show ?thesis
    by (simp add: FinalizerProcess_init_def Let_def)
qed

lemma raises_state_placement:
  assumes "MeasuredProcess_init initialize_fn next_fn = Inr self"
    and "result (type_signature initialize_fn) = FederatedType s p ae"
    and "parameter (type_signature next_fn) = Some next_fn_param"
    and "list_all is_federated (flatten next_fn_param @ flatten (result (type_signature next_fn)))"
    and "p \<noteq> SERVER"
  shows "FinalizerProcess_init is_assignable_from initialize_fn next_fn =
    Inl (TemplatePlacementError (state_placement_msg (FederatedType s p ae)))"
  using assms by (simp add: FinalizerProcess_init_def Let_def)

lemma raises_not_a_struct:
  assumes "MeasuredProcess_init initialize_fn next_fn = Inr self"
    and "result (type_signature initialize_fn) = FederatedType s SERVER ae"
    and "parameter (type_signature next_fn) = Some next_fn_param"
    and "list_all is_federated (flatten next_fn_param @ flatten (result (type_signature next_fn)))"
    and "\<not> is_struct next_fn_param"
  shows "FinalizerProcess_init is_assignable_from initialize_fn next_fn =
    Inl (TemplateNextFnNumArgsError (not_a_struct_msg next_fn_param))"
  using assms by (simp add: FinalizerProcess_init_def Let_def)

lemma raises_num_args:
  assumes "MeasuredProcess_init initialize_fn next_fn = Inr self"
    and "result (type_signature initialize_fn) = FederatedType s SERVER ae"
    and "parameter (type_signature next_fn) = Some next_fn_param"
    and "list_all is_federated (flatten next_fn_param @ flatten (result (type_signature next_fn)))"
    and "is_struct next_fn_param"
    and "length (elements next_fn_param) \<noteq> 3"
  shows "FinalizerProcess_init is_assignable_from initialize_fn next_fn =
    Inl (TemplateNextFnNumArgsError
          (num_args_msg (length (elements next_fn_param))
            (joined [NL, Lit ''- ''] (map (\<lambda>f. [StrType (snd f)]) (elements next_fn_param)))))"
  using assms by (simp add: FinalizerProcess_init_def Let_def join_rendered)

lemma raises_second_placement:
  assumes "MeasuredProcess_init initialize_fn next_fn = Inr self"
    and "result (type_signature initialize_fn) = FederatedType s SERVER ae"
    and "parameter (type_signature next_fn) = Some next_fn_param"
    and "list_all is_federated (flatten next_fn_param @ flatten (result (type_signature next_fn)))"
    and "is_struct next_fn_param"
    and "elements next_fn_param = [e_state, e_weights, e_update]"
    and "snd e_weights = FederatedType w p aw"
    and "p \<noteq> SERVER"
  shows "FinalizerProcess_init is_assignable_from initialize_fn next_fn =
    Inl (TemplatePlacementError (second_arg_placement_msg (FederatedType w p aw)))"
  using assms by (simp add: FinalizerProcess_init_def Let_def)

lemma raises_model_weights:
  assumes "MeasuredProcess_init initialize_fn next_fn = Inr self"
    and "result (type_signature initialize_fn) = FederatedType s SERVER ae"
    and "parameter (type_signature next_fn) = Some next_fn_param"
    and "list_all is_federated (flatten next_fn_param @ flatten (result (type_signature next_fn)))"
    and "is_struct next_fn_param"
    and "elements next_fn_param = [e_state, e_weights, e_update]"
    and "snd e_weights = FederatedType w SERVER aw"
    and "\<not> is_struct_with_python w \<or> python_container w \<noteq> Some ModelWeights"
  shows "FinalizerProcess_init is_assignable_from initialize_fn next_fn =
    Inl (ModelWeightsTypeError (model_weights_msg (FederatedType w SERVER aw)))"
  using assms by (auto simp add: FinalizerProcess_init_def Let_def)

lemma raises_third_placement:
  assumes "MeasuredProcess_init initialize_fn next_fn = Inr self"
    and "result (type_signature initialize_fn) = FederatedType s SERVER ae"
    and "parameter (type_signature next_fn) = Some next_fn_param"
    and "list_all is_federated (flatten next_fn_param @ flatten (result (type_signature next_fn)))"
    and "is_struct next_fn_param"
    and "elements next_fn_param = [e_state, e_weights, e_update]"
    and "snd e_weights = FederatedType (StructWithPythonType fs ModelWeights) SERVER aw"
    and "snd e_update = FederatedType u p au"
    and "p \<noteq> SERVER"
  shows "FinalizerProcess_init is_assignable_from initialize_fn next_fn =
    Inl (TemplatePlacementError (third_arg_placement_msg (FederatedType u p au)))"
  using assms by (simp add: FinalizerProcess_init_def Let_def)

lemma raises_result_placement:
  assumes "MeasuredProcess_init initialize_fn next_fn = Inr self"
    and "result (type_signature initialize_fn) = FederatedType s SERVER ae"
    and "parameter (type_signature next_fn) = Some next_fn_param"
    and "list_all is_federated (flatten next_fn_param @ flatten (result (type_signature next_fn)))"
    and "is_struct next_fn_param"
    and "elements next_fn_param = [e_state, e_weights, e_update]"
    and "snd e_weights = FederatedType (StructWithPythonType fs ModelWeights) SERVER aw"
    and "snd e_update = FederatedType u SERVER au"
    and "getattr (result (type_signature next_fn)) ''result'' = Inr (FederatedType r p ar)"
    and "p \<noteq> SERVER"
  shows "FinalizerProcess_init is_assignable_from initialize_fn next_fn =
    Inl (TemplatePlacementError (result_placement_msg (FederatedType r p ar)))"
  using assms by (simp add: FinalizerProcess_init_def Let_def)

lemma raises_result_type:
  assumes "MeasuredProcess_init initialize_fn next_fn = Inr self"
    and "result (type_signature initialize_fn) = FederatedType s SERVER ae"
    and "parameter (type_signature next_fn) = Some next_fn_param"
    and "list_all is_federated (flatten next_fn_param @ flatten (result (type_signature next_fn)))"
    and "is_struct next_fn_param"
    and "elements next_fn_param = [e_state, e_weights, e_update]"
    and "snd e_weights = FederatedType (StructWithPythonType fs ModelWeights) SERVER aw"
    and "snd e_update = FederatedType u SERVER au"
    and "getattr (result (type_signature next_fn)) ''result'' = Inr (FederatedType r SERVER ar)"
    and "\<not> is_assignable_from (StructWithPythonType fs ModelWeights) r"
  shows "FinalizerProcess_init is_assignable_from initialize_fn next_fn =
    Inl (FinalizerResultTypeError (result_type_msg (StructWithPythonType fs ModelWeights) r))"
  using assms by (simp add: FinalizerProcess_init_def Let_def)

lemma raises_measurements_placement:
  assumes "MeasuredProcess_init initialize_fn next_fn = Inr self"
    and "result (type_signature initialize_fn) = FederatedType s SERVER ae"
    and "parameter (type_signature next_fn) = Some next_fn_param"
    and "list_all is_federated (flatten next_fn_param @ flatten (result (type_signature next_fn)))"
    and "is_struct next_fn_param"
    and "elements next_fn_param = [e_state, e_weights, e_update]"
    and "snd e_weights = FederatedType (StructWithPythonType fs ModelWeights) SERVER aw"
    and "snd e_update = FederatedType u SERVER au"
    and "getattr (result (type_signature next_fn)) ''result'' = Inr (FederatedType r SERVER ar)"
    and "is_assignable_from (StructWithPythonType fs ModelWeights) r"
    and "getattr (result (type_signature next_fn)) ''measurements'' = Inr (FederatedType m p am)"
    and "p \<noteq> SERVER"
  shows "FinalizerProcess_init is_assignable_from initialize_fn next_fn =
    Inl (TemplatePlacementError (measurements_placement_msg (FederatedType m p am)))"
  using assms by (simp add: FinalizerProcess_init_def Let_def)

lemma constructs:
  assumes "MeasuredProcess_init initialize_fn next_fn = Inr self"
    and "result (type_signature initialize_fn) = FederatedType s SERVER ae"
    and "parameter (type_signature next_fn) = Some next_fn_param"
    and "list_all is_federated (flatten next_fn_param @ flatten (result (type_signature next_fn)))"
    and "is_struct next_fn_param"
    and "elements next_fn_param = [e_state, e_weights, e_update]"
    and "snd e_weights = FederatedType (StructWithPythonType fs ModelWeights) SERVER aw"
    and "snd e_update = FederatedType u SERVER au"
    and "getattr (result (type_signature next_fn)) ''result'' = Inr (FederatedType r SERVER ar)"
    and "is_assignable_from (StructWithPythonType fs ModelWeights) r"
    and "getattr (result (type_signature next_fn)) ''measurements'' = Inr (FederatedType m SERVER am)"
  shows "FinalizerProcess_init is_assignable_from initialize_fn next_fn = Inr self"
  using assms by (simp add: FinalizerProcess_init_def Let_def)

text \<open>
  Once the second parameter element has the model weights container, no later statement
  raises \<^verbatim>\<open>ModelWeightsTypeError\<close>.
\<close>

lemma not_model_weights_error:
  assumes "MeasuredProcess_init initialize_fn next_fn = Inr self"
    and "result (type_signature initialize_fn) = FederatedType s SERVER ae"
    and "parameter (type_signature next_fn) = Some next_fn_param"
    and "list_all is_federated (flatten next_fn_param @ flatten (result (type_signature next_fn)))"
    and "is_struct next_fn_param"
    and "elements next_fn_param = [e_state, e_weights, e_update]"
    and "snd e_weights = FederatedType (StructWithPythonType fs ModelWeights) SERVER aw"
  shows "FinalizerProcess_init is_assignable_from initialize_fn next_fn
          \<noteq> Inl (ModelWeightsTypeError msg)"
  using assms
  by (auto simp add: FinalizerProcess_init_def Let_def split: sum.split
      dest: getattr_error getattr_placement_error)

text \<open>
  A construction that succeeds has passed every check: the facts the checks establish, in
  the order of the source.
\<close>

lemma constructs_only_if:
  assumes ok: "FinalizerProcess_init asg i n = Inr self"
  obtains s ae P e_state e_weights e_update fs aw u au r ar m am where
      "MeasuredProcess_init i n = Inr self"
      "result (type_signature i) = FederatedType s SERVER ae"
      "parameter (type_signature n) = Some P"
      "list_all is_federated (flatten P @ flatten (result (type_signature n)))"
      "is_struct P" "elements P = [e_state, e_weights, e_update]"
      "snd e_weights = FederatedType (StructWithPythonType fs ModelWeights) SERVER aw"
      "snd e_update = FederatedType u SERVER au"
      "getattr (result (type_signature n)) ''result'' = Inr (FederatedType r SERVER ar)"
      "asg (StructWithPythonType fs ModelWeights) r"
      "getattr (result (type_signature n)) ''measurements'' = Inr (FederatedType m SERVER am)"
proof -
  note d = FinalizerProcess_init_def Let_def
  obtain self' where base: "MeasuredProcess_init i n = Inr self'"
    using ok by (cases "MeasuredProcess_init i n") (simp_all add: d)
  have fed: "is_federated (result (type_signature i))"
    using ok base by (auto simp: d split: if_splits)
  obtain P where param: "parameter (type_signature n) = Some P"
    using ok base fed by (cases "parameter (type_signature n)") (simp_all add: d)
  have leaves: "list_all is_federated (flatten P @ flatten (result (type_signature n)))"
  proof (rule ccontr)
    assume "\<not> ?thesis"
    then show False
      using ok base fed param by (simp add: d split: sum.splits)
  qed
  note f1 = base fed param leaves
  obtain s p ae where init: "result (type_signature i) = FederatedType s p ae"
    using fed by (cases "result (type_signature i)") simp_all
  have "p = SERVER"
    using ok f1 init by (auto simp: d split: if_splits)
  with init have init: "result (type_signature i) = FederatedType s SERVER ae" by simp
  have struct: "is_struct P"
    using ok f1 init by (auto simp: d split: if_splits)
  have "length (elements P) = 3"
    using ok f1 init struct by (auto simp: d split: if_splits sum.splits)
  then obtain e_state e_weights e_update where els: "elements P = [e_state, e_weights, e_update]"
    by (auto simp: length_three)
  note f2 = base init param leaves struct els
  obtain v where v: "getattr_placement (snd e_weights) = Inr v"
    using ok f2 by (cases "getattr_placement (snd e_weights)") (simp_all add: d)
  then have "v = PlacementLiteral SERVER"
    using ok f2 by (auto simp: d split: if_splits)
  with v obtain w aw where second: "snd e_weights = FederatedType w SERVER aw"
    by (auto simp: getattr_placement_server)
  have "is_struct_with_python w \<and> python_container w = Some ModelWeights"
    using ok f2 second by (auto simp: d split: if_splits)
  then obtain fs where "w = StructWithPythonType fs ModelWeights"
    by (auto simp: model_weights_container)
  with second
  have second: "snd e_weights = FederatedType (StructWithPythonType fs ModelWeights) SERVER aw"
    by simp
  obtain v' where v': "getattr_placement (snd e_update) = Inr v'"
    using ok f2 second by (cases "getattr_placement (snd e_update)") (simp_all add: d)
  then have "v' = PlacementLiteral SERVER"
    using ok f2 second by (auto simp: d split: if_splits)
  with v' obtain u au where third: "snd e_update = FederatedType u SERVER au"
    by (auto simp: getattr_placement_server)
  note f3 = f2 second third
  obtain rt where res: "getattr (result (type_signature n)) ''result'' = Inr rt"
    using ok f3 by (cases "getattr (result (type_signature n)) ''result''") (simp_all add: d)
  obtain vr where vr: "getattr_placement rt = Inr vr"
    using ok f3 res by (cases "getattr_placement rt") (simp_all add: d)
  then have "vr = PlacementLiteral SERVER"
    using ok f3 res by (auto simp: d split: if_splits)
  with vr obtain r ar where "rt = FederatedType r SERVER ar"
    by (auto simp: getattr_placement_server)
  with res
  have res: "getattr (result (type_signature n)) ''result'' = Inr (FederatedType r SERVER ar)"
    by simp
  have asg: "asg (StructWithPythonType fs ModelWeights) r"
    using ok f3 res by (auto simp: d split: if_splits)
  note f4 = f3 res asg
  obtain mt where meas: "getattr (result (type_signature n)) ''measurements'' = Inr mt"
    using ok f4 by (cases "getattr (result (type_signature n)) ''measurements''") (simp_all add: d)
  obtain vm where vm: "getattr_placement mt = Inr vm"
    using ok f4 meas by (cases "getattr_placement mt") (simp_all add: d)
  then have "vm = PlacementLiteral SERVER"
    using ok f4 meas by (auto simp: d split: if_splits)
  with vm obtain m am where "mt = FederatedType m SERVER am"
    by (auto simp: getattr_placement_server)
  with meas
  have meas: "getattr (result (type_signature n)) ''measurements'' = Inr (FederatedType m SERVER am)"
    by simp
  have "self' = self"
    using ok f4 meas by (simp add: d)
  with f4 meas that show thesis by blast
qed

section \<open>The properties\<close>

text \<open>
  C1, as amended. Once every earlier check has passed, the member type of the second
  parameter element must be assignable from the member type of the result field (the
  declared weights type accepts the produced result). When it is not, the construction
  fails with \<^verbatim>\<open>FinalizerResultTypeError\<close>, and the message names the member type of the
  second input argument and the member type of the result attribute.
\<close>

theorem result_type_mismatch_raises:
  assumes "MeasuredProcess_init initialize_fn next_fn = Inr self"
    and "result (type_signature initialize_fn) = FederatedType s SERVER ae"
    and "parameter (type_signature next_fn) = Some next_fn_param"
    and "list_all is_federated (flatten next_fn_param @ flatten (result (type_signature next_fn)))"
    and "is_struct next_fn_param"
    and "elements next_fn_param = [e_state, e_weights, e_update]"
    and "snd e_weights = FederatedType (StructWithPythonType fs ModelWeights) SERVER aw"
    and "snd e_update = FederatedType u SERVER au"
    and "getattr (result (type_signature next_fn)) ''result'' = Inr (FederatedType r SERVER ar)"
    and "\<not> is_assignable_from (StructWithPythonType fs ModelWeights) r"
  shows \<open>FinalizerProcess_init is_assignable_from initialize_fn next_fn =
    Inl (FinalizerResultTypeError
     [Lit ''The second input argument of `next_fn` must match the "result" attribute of the return type of `next_fn`. Found:'', NL,
      Lit ''Second input argument: '', StrType (StructWithPythonType fs ModelWeights), NL,
      Lit ''Result attribute: '', StrType r, Lit ''.''])\<close>
  using raises_result_type [where is_assignable_from = is_assignable_from, OF assms]
  by (simp add: result_type_msg_def)

text \<open>
  An instance: the weights parameter holds a vector of length three, the result a vector
  of unknown length, which a vector of length three does not accept.
\<close>

theorem result_type_mismatch_raises_witness:
  \<open>FinalizerProcess_init assignable test_initialize_fn
     (next_finalizing (weights_struct ModelWeights (float32_vector (Some 3)))
                      (weights_struct ModelWeights (float32_vector None))) =
    Inl (FinalizerResultTypeError
     [Lit ''The second input argument of `next_fn` must match the "result" attribute of the return type of `next_fn`. Found:'', NL,
      Lit ''Second input argument: '', StrType (weights_struct ModelWeights (float32_vector (Some 3))), NL,
      Lit ''Result attribute: '', StrType (weights_struct ModelWeights (float32_vector None)), Lit ''.''])\<close>
  unfolding weights_struct_def
  by (rule result_type_mismatch_raises
        [where self = "\<lparr>initialize = test_initialize_fn,
                 next_step = next_finalizing (weights_struct ModelWeights (float32_vector (Some 3)))
                               (weights_struct ModelWeights (float32_vector None))\<rparr>"
           and s = int32 and ae = True
           and next_fn_param = "arguments [at_server int32,
                 at_server (weights_struct ModelWeights (float32_vector (Some 3))), at_server float32]"
           and e_state = "(None, at_server int32)"
           and e_weights = "(None, at_server (weights_struct ModelWeights (float32_vector (Some 3))))"
           and e_update = "(None, at_server float32)"
           and aw = True and u = float32 and au = True and ar = True])
     (simp_all add: examples base_class)

text \<open>
  C1 as stated asks for the converse direction: that the member type of the result field
  be assignable from the member type of the second parameter element. Here it is not (a
  vector of length three does not accept a vector of unknown length), and the construction
  succeeds, because the weights type accepts the result type.
\<close>

theorem result_assignable_from_weights_counterexample:
  "\<not> assignable (weights_struct ModelWeights (float32_vector (Some 3)))
                (weights_struct ModelWeights (float32_vector None))
   \<and> FinalizerProcess_init assignable test_initialize_fn
        (next_finalizing (weights_struct ModelWeights (float32_vector None))
                         (weights_struct ModelWeights (float32_vector (Some 3))))
      = Inr \<lparr>initialize = test_initialize_fn,
             next_step = next_finalizing (weights_struct ModelWeights (float32_vector None))
                                         (weights_struct ModelWeights (float32_vector (Some 3)))\<rparr>"
  by (simp add: examples base_class FinalizerProcess_init_def Let_def)

text \<open>
  C2. The claim: whenever a leaf of the flattened parameter and result types of the step
  function is not federated, the construction fails with \<^verbatim>\<open>TemplateNotFederatedError\<close>,
  and the message lists the offending leaves. The code does not get that far. When the
  base class has accepted the pair and the initializer's result is federated, lines 75-76
  hand the offending type objects themselves, not their renderings, to \<^verbatim>\<open>str.join\<close>
  (line 97 renders each element with \<^verbatim>\<open>str\<close> first), and the construction ends with the
  built-in \<^verbatim>\<open>TypeError\<close>; the \<^verbatim>\<open>raise\<close> of lines 77-81 is never reached.
\<close>

theorem non_federated_leaf_raises_builtin_type_error:
  assumes "MeasuredProcess_init initialize_fn next_fn = Inr self"
    and "is_federated (result (type_signature initialize_fn))"
    and "parameter (type_signature next_fn) = Some next_fn_param"
    and "\<not> list_all is_federated (flatten next_fn_param @ flatten (result (type_signature next_fn)))"
  shows "FinalizerProcess_init is_assignable_from initialize_fn next_fn = Inl TypeError"
  using assms by (rule raises_join_type_error)

text \<open>The failing input: the model weights are passed without a placement.\<close>

theorem non_federated_leaf_raises_builtin_type_error_witness:
  "FinalizerProcess_init assignable test_initialize_fn
     (next_taking
        (arguments [at_server int32, weights_struct ModelWeights float32, at_server float32])
        (at_server int32) (at_server (weights_struct ModelWeights float32)) (at_server int32))
   = Inl TypeError"
  by (rule non_federated_leaf_raises_builtin_type_error
        [where self = "\<lparr>initialize = test_initialize_fn,
                 next_step = next_taking
                   (arguments [at_server int32, weights_struct ModelWeights float32, at_server float32])
                   (at_server int32) (at_server (weights_struct ModelWeights float32))
                   (at_server int32)\<rparr>"
           and next_fn_param =
             "arguments [at_server int32, weights_struct ModelWeights float32, at_server float32]"])
     (simp_all add: examples base_class)

text \<open>
  C3, as amended. When the constructor of the base class has accepted the pair and the
  result type of the initializer is not federated, the construction fails with
  \<^verbatim>\<open>TemplateNotFederatedError\<close>, whatever else holds of the two computations: it is the
  first check after the call of the base class constructor. The message embeds the result
  type.
\<close>

theorem init_not_federated_raises:
  assumes "MeasuredProcess_init initialize_fn next_fn = Inr self"
    and "\<not> is_federated (result (type_signature initialize_fn))"
  shows \<open>FinalizerProcess_init is_assignable_from initialize_fn next_fn =
    Inl (TemplateNotFederatedError
     [Lit ''Provided `initialize_fn` must return a federated type, but found return type:'', NL,
      StrType (result (type_signature initialize_fn)), NL,
      Lit ''Tip: If you see a collection of federated types, try wrapping the returned value in `tff.federated_zip` before returning.''])\<close>
  using raises_init_not_federated [where is_assignable_from = is_assignable_from, OF assms]
  by (simp add: init_not_federated_msg_def)

text \<open>
  An instance: the state is an unplaced \<^verbatim>\<open>int32\<close>, and the step function takes a single
  argument, which is not a structure.
\<close>

theorem init_not_federated_raises_witness:
  \<open>FinalizerProcess_init assignable (initialize_returning int32)
     (next_taking int32 int32 (at_server float32) (at_server float32)) =
    Inl (TemplateNotFederatedError
     [Lit ''Provided `initialize_fn` must return a federated type, but found return type:'', NL,
      StrType int32, NL,
      Lit ''Tip: If you see a collection of federated types, try wrapping the returned value in `tff.federated_zip` before returning.''])\<close>
  using init_not_federated_raises
    [where initialize_fn = "initialize_returning int32"
       and next_fn = "next_taking int32 int32 (at_server float32) (at_server float32)"
       and self = "\<lparr>initialize = initialize_returning int32,
             next_step = next_taking int32 int32 (at_server float32) (at_server float32)\<rparr>"
       and is_assignable_from = assignable]
  by (simp add: examples base_class)

text \<open>
  C3 as stated makes the check the first one, so that a result type without a placement
  would decide the error alone. The constructor of the base class runs before it (line
  63): here the initializer returns an unplaced \<^verbatim>\<open>int32\<close>, the state of the step function
  is \<^verbatim>\<open>int32@SERVER\<close>, and the construction ends with the base class's
  \<^verbatim>\<open>TemplateStateNotAssignableError\<close>.
\<close>

theorem init_not_federated_counterexample:
  "\<not> is_federated (result (type_signature (initialize_returning int32)))
   \<and> FinalizerProcess_init assignable (initialize_returning int32) test_next_fn
       = Inl TemplateStateNotAssignableError"
  by (simp add: examples base_class FinalizerProcess_init_def)

text \<open>
  C4, as amended. When the earlier checks have passed (the base class has accepted the
  pair, the result type of the initializer is federated and placed at \<^verbatim>\<open>SERVER\<close>, and
  every leaf of the step function's types is federated) and the parameter type of the step
  function is not a structure of three elements, the construction fails with
  \<^verbatim>\<open>TemplateNextFnNumArgsError\<close>. A parameter that is not a structure and a structure of
  another length get different messages: the first embeds the parameter type, the second
  the number of elements and the type of every element.
\<close>

theorem wrong_parameter_count_raises:
  assumes "MeasuredProcess_init initialize_fn next_fn = Inr self"
    and "result (type_signature initialize_fn) = FederatedType s SERVER ae"
    and "parameter (type_signature next_fn) = Some next_fn_param"
    and "list_all is_federated (flatten next_fn_param @ flatten (result (type_signature next_fn)))"
  shows \<open>(\<not> is_struct next_fn_param \<longrightarrow>
      FinalizerProcess_init is_assignable_from initialize_fn next_fn =
        Inl (TemplateNextFnNumArgsError
         [Lit ''The `next_fn` must have exactly two input arguments, but found the following input type which is not a Struct: '',
          StrType next_fn_param, Lit ''.'']))
    \<and> (is_struct next_fn_param \<and> length (elements next_fn_param) \<noteq> 3 \<longrightarrow>
      FinalizerProcess_init is_assignable_from initialize_fn next_fn =
        Inl (TemplateNextFnNumArgsError
         ([Lit ''The `next_fn` must have exactly three input arguments, but found '',
           StrNat (length (elements next_fn_param)), Lit '' input arguments:'', NL]
          @ joined [NL, Lit ''- ''] (map (\<lambda>f. [StrType (snd f)]) (elements next_fn_param))))
      \<and> (\<forall>f \<in> set (elements next_fn_param).
            StrType (snd f)
              \<in> set (joined [NL, Lit ''- ''] (map (\<lambda>f. [StrType (snd f)]) (elements next_fn_param)))))\<close>
proof (intro conjI impI ballI)
  assume "\<not> is_struct next_fn_param"
  with assms show \<open>FinalizerProcess_init is_assignable_from initialize_fn next_fn =
        Inl (TemplateNextFnNumArgsError
         [Lit ''The `next_fn` must have exactly two input arguments, but found the following input type which is not a Struct: '',
          StrType next_fn_param, Lit ''.''])\<close>
    using raises_not_a_struct [where is_assignable_from = is_assignable_from]
    by (simp add: not_a_struct_msg_def)
next
  assume "is_struct next_fn_param \<and> length (elements next_fn_param) \<noteq> 3"
  with assms show \<open>FinalizerProcess_init is_assignable_from initialize_fn next_fn =
        Inl (TemplateNextFnNumArgsError
         ([Lit ''The `next_fn` must have exactly three input arguments, but found '',
           StrNat (length (elements next_fn_param)), Lit '' input arguments:'', NL]
          @ joined [NL, Lit ''- ''] (map (\<lambda>f. [StrType (snd f)]) (elements next_fn_param))))\<close>
    using raises_num_args [where is_assignable_from = is_assignable_from]
    by (simp add: num_args_msg_def)
next
  fix f assume "f \<in> set (elements next_fn_param)"
  then have "[StrType (snd f)] \<in> set (map (\<lambda>f. [StrType (snd f)]) (elements next_fn_param))"
    by simp
  from joined_embeds [OF this]
  show "StrType (snd f)
      \<in> set (joined [NL, Lit ''- ''] (map (\<lambda>f. [StrType (snd f)]) (elements next_fn_param)))"
    by simp
qed

text \<open>
  Two instances: a step function of the state alone, and one of the state and the model
  weights.
\<close>

theorem wrong_parameter_count_raises_witness:
  \<open>FinalizerProcess_init assignable test_initialize_fn
      (next_taking (at_server int32) (at_server int32) (at_server float32) (at_server float32)) =
     Inl (TemplateNextFnNumArgsError
         [Lit ''The `next_fn` must have exactly two input arguments, but found the following input type which is not a Struct: '',
          StrType (at_server int32), Lit ''.''])
   \<and> FinalizerProcess_init assignable test_initialize_fn
      (next_taking (arguments [at_server int32, at_server (weights_struct ModelWeights float32)])
         (at_server int32) (at_server float32) (at_server float32)) =
     Inl (TemplateNextFnNumArgsError
         [Lit ''The `next_fn` must have exactly three input arguments, but found '',
          StrNat 2, Lit '' input arguments:'', NL,
          StrType (at_server int32), NL, Lit ''- '',
          StrType (at_server (weights_struct ModelWeights float32))])\<close>
proof
  show \<open>FinalizerProcess_init assignable test_initialize_fn
      (next_taking (at_server int32) (at_server int32) (at_server float32) (at_server float32)) =
     Inl (TemplateNextFnNumArgsError
         [Lit ''The `next_fn` must have exactly two input arguments, but found the following input type which is not a Struct: '',
          StrType (at_server int32), Lit ''.''])\<close>
    using wrong_parameter_count_raises
      [where initialize_fn = test_initialize_fn
         and next_fn = "next_taking (at_server int32) (at_server int32) (at_server float32) (at_server float32)"
         and self = "\<lparr>initialize = test_initialize_fn,
               next_step = next_taking (at_server int32) (at_server int32) (at_server float32)
                             (at_server float32)\<rparr>"
         and s = int32 and ae = True and next_fn_param = "at_server int32"
         and is_assignable_from = assignable]
    by (simp add: examples base_class)
  show \<open>FinalizerProcess_init assignable test_initialize_fn
      (next_taking (arguments [at_server int32, at_server (weights_struct ModelWeights float32)])
         (at_server int32) (at_server float32) (at_server float32)) =
     Inl (TemplateNextFnNumArgsError
         [Lit ''The `next_fn` must have exactly three input arguments, but found '',
          StrNat 2, Lit '' input arguments:'', NL,
          StrType (at_server int32), NL, Lit ''- '',
          StrType (at_server (weights_struct ModelWeights float32))])\<close>
    using wrong_parameter_count_raises
      [where initialize_fn = test_initialize_fn
         and next_fn = "next_taking (arguments [at_server int32, at_server (weights_struct ModelWeights float32)])
               (at_server int32) (at_server float32) (at_server float32)"
         and self = "\<lparr>initialize = test_initialize_fn,
               next_step = next_taking
                 (arguments [at_server int32, at_server (weights_struct ModelWeights float32)])
                 (at_server int32) (at_server float32) (at_server float32)\<rparr>"
         and s = int32 and ae = True
         and next_fn_param = "arguments [at_server int32, at_server (weights_struct ModelWeights float32)]"
         and is_assignable_from = assignable]
    by (simp add: examples base_class)
qed

text \<open>
  C4 as stated lets a parameter that is not a structure of three elements decide the
  error alone. The checks of lines 65-86 come first. Here the step function has two
  arguments in both pairs: with an initializer returning an unplaced \<^verbatim>\<open>int32\<close> the error
  is that of the initializer's result, and with a state placed at the clients it is the
  placement error of the state.
\<close>

theorem wrong_parameter_count_counterexample:
  "is_struct (arguments [int32, at_server (weights_struct ModelWeights float32)])
   \<and> length (elements (arguments [int32, at_server (weights_struct ModelWeights float32)])) \<noteq> 3
   \<and> FinalizerProcess_init assignable (initialize_returning int32)
        (next_taking (arguments [int32, at_server (weights_struct ModelWeights float32)])
           int32 (at_server float32) (at_server float32))
      = Inl (TemplateNotFederatedError (init_not_federated_msg int32))
   \<and> length (elements (arguments [at_clients int32,
                                   at_server (weights_struct ModelWeights float32)])) \<noteq> 3
   \<and> FinalizerProcess_init assignable (initialize_returning (at_clients int32))
        (next_taking (arguments [at_clients int32, at_server (weights_struct ModelWeights float32)])
           (at_clients int32) (at_server (weights_struct ModelWeights float32)) (at_server int32))
      = Inl (TemplatePlacementError (state_placement_msg (at_clients int32)))"
  by (simp add: examples base_class FinalizerProcess_init_def Let_def)

text \<open>
  C5, as amended. When the base class has accepted the pair, every leaf of the step
  function's types is federated, and the result type of the initializer is federated with
  a placement other than \<^verbatim>\<open>SERVER\<close>, the construction fails with
  \<^verbatim>\<open>TemplatePlacementError\<close>, and the message embeds the result type of the initializer.
\<close>

theorem state_not_at_server_raises:
  assumes "MeasuredProcess_init initialize_fn next_fn = Inr self"
    and "result (type_signature initialize_fn) = FederatedType s p ae"
    and "p \<noteq> SERVER"
    and "parameter (type_signature next_fn) = Some next_fn_param"
    and "list_all is_federated (flatten next_fn_param @ flatten (result (type_signature next_fn)))"
  shows \<open>FinalizerProcess_init is_assignable_from initialize_fn next_fn =
    Inl (TemplatePlacementError
     [Lit ''The state controlled by an `FinalizerProcess` must be placed at the SERVER, but found type: '',
      StrType (result (type_signature initialize_fn)), Lit ''.''])\<close>
  using raises_state_placement [where is_assignable_from = is_assignable_from,
      OF assms(1,2,4,5,3)] assms(2)
  by (simp add: state_placement_msg_def)

text \<open>An instance: the state is placed at the clients.\<close>

theorem state_not_at_server_raises_witness:
  \<open>FinalizerProcess_init assignable (initialize_returning (at_clients int32))
     (next_taking
        (arguments [at_clients int32, at_server (weights_struct ModelWeights float32), at_server float32])
        (at_clients int32) (at_server (weights_struct ModelWeights float32)) (at_server int32)) =
    Inl (TemplatePlacementError
     [Lit ''The state controlled by an `FinalizerProcess` must be placed at the SERVER, but found type: '',
      StrType (at_clients int32), Lit ''.''])\<close>
  using state_not_at_server_raises
    [where initialize_fn = "initialize_returning (at_clients int32)"
       and next_fn = "next_taking
        (arguments [at_clients int32, at_server (weights_struct ModelWeights float32), at_server float32])
        (at_clients int32) (at_server (weights_struct ModelWeights float32)) (at_server int32)"
       and self = "\<lparr>initialize = initialize_returning (at_clients int32),
             next_step = next_taking
               (arguments [at_clients int32, at_server (weights_struct ModelWeights float32),
                           at_server float32])
               (at_clients int32) (at_server (weights_struct ModelWeights float32))
               (at_server int32)\<rparr>"
       and s = int32 and p = CLIENTS and ae = False
       and next_fn_param = "arguments [at_clients int32,
             at_server (weights_struct ModelWeights float32), at_server float32]"
       and is_assignable_from = assignable]
  by (simp add: examples base_class)

text \<open>
  C5 as stated lets an initializer whose result is federated and placed elsewhere than at
  \<^verbatim>\<open>SERVER\<close> decide the error alone. The constructor of the base class and the check of
  the leaves come first. Here the initializer returns \<^verbatim>\<open>int32@CLIENTS\<close>: with a step
  function whose state is \<^verbatim>\<open>int32@SERVER\<close> the construction ends with the base class's
  \<^verbatim>\<open>TemplateStateNotAssignableError\<close>, and with a step function that takes the model
  weights without a placement it ends at lines 75-76 with the built-in \<^verbatim>\<open>TypeError\<close>.
\<close>

theorem state_not_at_server_counterexample:
  "is_federated (result (type_signature (initialize_returning (at_clients int32))))
   \<and> \<not> placed_at_server (result (type_signature (initialize_returning (at_clients int32))))
   \<and> FinalizerProcess_init assignable (initialize_returning (at_clients int32)) test_next_fn
      = Inl TemplateStateNotAssignableError
   \<and> FinalizerProcess_init assignable (initialize_returning (at_clients int32))
        (next_taking
           (arguments [at_clients int32, weights_struct ModelWeights float32, at_server float32])
           (at_clients int32) (at_server (weights_struct ModelWeights float32)) (at_server int32))
      = Inl TypeError"
  by (simp add: examples base_class FinalizerProcess_init_def Let_def)

text \<open>
  C6, as amended. When the earlier checks have passed and the second parameter element is
  a federated type: placed elsewhere than at \<^verbatim>\<open>SERVER\<close>, the construction fails with
  \<^verbatim>\<open>TemplatePlacementError\<close> (lines 103-106); placed at \<^verbatim>\<open>SERVER\<close> with a member that is
  not a structure with the container \<^verbatim>\<open>ModelWeights\<close>, it fails with
  \<^verbatim>\<open>ModelWeightsTypeError\<close> (lines 107-113). Both messages embed the type of the element.
\<close>

theorem second_parameter_raises:
  assumes "MeasuredProcess_init initialize_fn next_fn = Inr self"
    and "result (type_signature initialize_fn) = FederatedType s SERVER ae"
    and "parameter (type_signature next_fn) = Some next_fn_param"
    and "list_all is_federated (flatten next_fn_param @ flatten (result (type_signature next_fn)))"
    and "is_struct next_fn_param"
    and "elements next_fn_param = [e_state, e_weights, e_update]"
    and "snd e_weights = FederatedType w p aw"
  shows \<open>(p \<noteq> SERVER \<longrightarrow>
      FinalizerProcess_init is_assignable_from initialize_fn next_fn =
        Inl (TemplatePlacementError
         [Lit ''The second input argument of `next_fn` must be placed at SERVER but found '',
          StrType (FederatedType w p aw), Lit ''.'']))
    \<and> (p = SERVER \<and> \<not> (is_struct_with_python w \<and> python_container w = Some ModelWeights) \<longrightarrow>
      FinalizerProcess_init is_assignable_from initialize_fn next_fn =
        Inl (ModelWeightsTypeError
         [Lit ''The second input argument of `next_fn` must have the `tff.learning.ModelWeights` container but found '',
          StrType (FederatedType w p aw)]))\<close>
proof (intro conjI impI)
  assume "p \<noteq> SERVER"
  with assms show \<open>FinalizerProcess_init is_assignable_from initialize_fn next_fn =
        Inl (TemplatePlacementError
         [Lit ''The second input argument of `next_fn` must be placed at SERVER but found '',
          StrType (FederatedType w p aw), Lit ''.''])\<close>
    using raises_second_placement [where is_assignable_from = is_assignable_from]
    by (simp add: second_arg_placement_msg_def)
next
  assume "p = SERVER \<and> \<not> (is_struct_with_python w \<and> python_container w = Some ModelWeights)"
  with assms show \<open>FinalizerProcess_init is_assignable_from initialize_fn next_fn =
        Inl (ModelWeightsTypeError
         [Lit ''The second input argument of `next_fn` must have the `tff.learning.ModelWeights` container but found '',
          StrType (FederatedType w p aw)])\<close>
    using raises_model_weights [where is_assignable_from = is_assignable_from and w = w]
    by (simp add: model_weights_msg_def)
qed

text \<open>
  Two instances: model weights placed at the clients, and a plain \<^verbatim>\<open>float32\<close> placed at the
  server in the place of the model weights.
\<close>

theorem second_parameter_raises_witness:
  \<open>FinalizerProcess_init assignable test_initialize_fn
      (next_taking
         (arguments [at_server int32, at_clients (weights_struct ModelWeights float32), at_server float32])
         (at_server int32) (at_server (weights_struct ModelWeights float32)) (at_server int32)) =
     Inl (TemplatePlacementError
         [Lit ''The second input argument of `next_fn` must be placed at SERVER but found '',
          StrType (at_clients (weights_struct ModelWeights float32)), Lit ''.''])
   \<and> FinalizerProcess_init assignable test_initialize_fn
      (next_finalizing float32 (weights_struct ModelWeights float32)) =
     Inl (ModelWeightsTypeError
         [Lit ''The second input argument of `next_fn` must have the `tff.learning.ModelWeights` container but found '',
          StrType (at_server float32)])\<close>
proof
  show \<open>FinalizerProcess_init assignable test_initialize_fn
      (next_taking
         (arguments [at_server int32, at_clients (weights_struct ModelWeights float32), at_server float32])
         (at_server int32) (at_server (weights_struct ModelWeights float32)) (at_server int32)) =
     Inl (TemplatePlacementError
         [Lit ''The second input argument of `next_fn` must be placed at SERVER but found '',
          StrType (at_clients (weights_struct ModelWeights float32)), Lit ''.''])\<close>
    using second_parameter_raises
      [where initialize_fn = test_initialize_fn
         and next_fn = "next_taking
           (arguments [at_server int32, at_clients (weights_struct ModelWeights float32), at_server float32])
           (at_server int32) (at_server (weights_struct ModelWeights float32)) (at_server int32)"
         and self = "\<lparr>initialize = test_initialize_fn,
               next_step = next_taking
                 (arguments [at_server int32, at_clients (weights_struct ModelWeights float32),
                             at_server float32])
                 (at_server int32) (at_server (weights_struct ModelWeights float32))
                 (at_server int32)\<rparr>"
         and s = int32 and ae = True
         and next_fn_param = "arguments [at_server int32,
               at_clients (weights_struct ModelWeights float32), at_server float32]"
         and e_state = "(None, at_server int32)"
         and e_weights = "(None, at_clients (weights_struct ModelWeights float32))"
         and e_update = "(None, at_server float32)"
         and w = "weights_struct ModelWeights float32" and p = CLIENTS and aw = False
         and is_assignable_from = assignable]
    by (simp add: examples base_class)
  show \<open>FinalizerProcess_init assignable test_initialize_fn
      (next_finalizing float32 (weights_struct ModelWeights float32)) =
     Inl (ModelWeightsTypeError
         [Lit ''The second input argument of `next_fn` must have the `tff.learning.ModelWeights` container but found '',
          StrType (at_server float32)])\<close>
    using second_parameter_raises
      [where initialize_fn = test_initialize_fn
         and next_fn = "next_finalizing float32 (weights_struct ModelWeights float32)"
         and self = "\<lparr>initialize = test_initialize_fn,
               next_step = next_finalizing float32 (weights_struct ModelWeights float32)\<rparr>"
         and s = int32 and ae = True
         and next_fn_param = "arguments [at_server int32, at_server float32, at_server float32]"
         and e_state = "(None, at_server int32)"
         and e_weights = "(None, at_server float32)"
         and e_update = "(None, at_server float32)"
         and w = float32 and p = SERVER and aw = True
         and is_assignable_from = assignable]
    by (simp add: examples base_class)
qed

text \<open>
  C6 as stated lets every failure of the second parameter element, the placement
  included, end in the container error. Here the element has the model weights container
  and is placed at the clients: the error is the placement error of lines 103-106.
\<close>

theorem second_parameter_at_clients_counterexample:
  "FinalizerProcess_init assignable test_initialize_fn
      (next_taking
         (arguments [at_server int32, at_clients (weights_struct ModelWeights float32), at_server float32])
         (at_server int32) (at_server (weights_struct ModelWeights float32)) (at_server int32))
   = Inl (TemplatePlacementError
           (second_arg_placement_msg (at_clients (weights_struct ModelWeights float32))))"
  by (simp add: examples base_class FinalizerProcess_init_def Let_def)

text \<open>
  C7. Take a pair the constructor accepts, whose third parameter element is therefore a
  federated type placed at \<^verbatim>\<open>SERVER\<close>, and change only that placement to \<^verbatim>\<open>CLIENTS\<close> (with
  either value of the all-equal bit). The construction then fails with
  \<^verbatim>\<open>TemplatePlacementError\<close>; the message speaks of the third input argument and embeds its
  type.
\<close>

theorem third_parameter_at_clients_raises:
  assumes ok: "FinalizerProcess_init is_assignable_from initialize_fn next_fn = Inr self"
    and param: "parameter (type_signature next_fn) = Some next_fn_param"
    and third: "snd (elements next_fn_param ! 2) = FederatedType u SERVER au"
  shows \<open>FinalizerProcess_init is_assignable_from initialize_fn
            (with_third_parameter next_fn (FederatedType u CLIENTS au')) =
    Inl (TemplatePlacementError
     [Lit ''The third input argument of `next_fn` must be placed at SERVER but found '',
      StrType (FederatedType u CLIENTS au'), Lit ''.''])\<close>
proof -
  from ok obtain s ae P e_state e_weights e_update fs aw where
      base: "MeasuredProcess_init initialize_fn next_fn = Inr self"
      and init: "result (type_signature initialize_fn) = FederatedType s SERVER ae"
      and P: "parameter (type_signature next_fn) = Some P"
      and leaves: "list_all is_federated (flatten P @ flatten (result (type_signature next_fn)))"
      and struct: "is_struct P" and els: "elements P = [e_state, e_weights, e_update]"
      and second: "snd e_weights = FederatedType (StructWithPythonType fs ModelWeights) SERVER aw"
    by (rule constructs_only_if)
  define moved where "moved = with_third_parameter next_fn (FederatedType u CLIENTS au')"
  define P' where
    "P' = with_elements P [e_state, e_weights, (fst e_update, FederatedType u CLIENTS au')]"
  have param': "parameter (type_signature moved) = Some P'"
    using P els by (simp add: moved_def P'_def with_third_parameter_def)
  have res': "result (type_signature moved) = result (type_signature next_fn)"
    by (simp add: moved_def with_third_parameter_def)
  have struct': "is_struct P'"
    and els': "elements P' = [e_state, e_weights, (fst e_update, FederatedType u CLIENTS au')]"
    using with_elements_struct [OF struct] by (simp_all add: P'_def)
  have base': "MeasuredProcess_init initialize_fn moved
      = Inr \<lparr>initialize = initialize_fn, next_step = moved\<rparr>"
    using base P struct els param' res' struct' els'
    by (simp add: base_accepts_iff state_consumed_def state_produced_def)
  have leaves': "list_all is_federated (flatten P' @ flatten (result (type_signature moved)))"
    using leaves struct els struct' els' res' by (simp add: struct_flatten)
  have "FinalizerProcess_init is_assignable_from initialize_fn moved =
      Inl (TemplatePlacementError (third_arg_placement_msg (FederatedType u CLIENTS au')))"
    using base' init param' leaves' struct' els' second
    by (rule raises_third_placement) simp_all
  then show ?thesis
    by (simp add: moved_def third_arg_placement_msg_def)
qed

text \<open>An instance: the pair of the class documentation, with the update moved to the clients.\<close>

theorem third_parameter_at_clients_raises_witness:
  \<open>FinalizerProcess_init assignable test_initialize_fn
      (with_third_parameter test_next_fn (at_clients float32)) =
    Inl (TemplatePlacementError
     [Lit ''The third input argument of `next_fn` must be placed at SERVER but found '',
      StrType (at_clients float32), Lit ''.''])\<close>
  unfolding at_clients_def float32_def
  by (rule third_parameter_at_clients_raises
        [where self = "\<lparr>initialize = test_initialize_fn, next_step = test_next_fn\<rparr>"
           and next_fn_param = "arguments [at_server int32,
                 at_server (weights_struct ModelWeights float32), at_server float32]"
           and au = True])
     (simp_all add: examples base_class FinalizerProcess_init_def Let_def)

text \<open>
  C8. A pair with the type signatures of the class documentation: an initializer without
  parameter returning \<open>S@SERVER\<close>; a step function from a structure of \<open>S@SERVER\<close>, model
  weights at the server and an update at the server, to the fields state \<open>S@SERVER\<close>,
  result and measurements, both at the server, where the member type of the weights
  parameter is assignable from the member type of the result. The construction succeeds,
  and the object holds the two computations that were passed in.
\<close>

theorem valid_pair_constructs:
  assumes "type_signature initialize_fn = \<lparr>parameter = None, result = FederatedType s SERVER ae\<rparr>"
    and "parameter (type_signature next_fn) = Some next_fn_param"
    and "is_struct next_fn_param"
    and "elements next_fn_param =
          [(n_state, FederatedType s SERVER ae),
           (n_weights, FederatedType (StructWithPythonType fs ModelWeights) SERVER aw),
           (n_update, FederatedType u SERVER au)]"
    and "is_struct (result (type_signature next_fn))"
    and "elements (result (type_signature next_fn)) =
          [(Some ''state'', FederatedType s SERVER ae),
           (Some ''result'', FederatedType r SERVER ar),
           (Some ''measurements'', FederatedType m SERVER am)]"
    and "is_assignable_from (StructWithPythonType fs ModelWeights) r"
  shows "FinalizerProcess_init is_assignable_from initialize_fn next_fn
           = Inr \<lparr>initialize = initialize_fn, next_step = next_fn\<rparr>"
proof -
  have base: "MeasuredProcess_init initialize_fn next_fn
      = Inr \<lparr>initialize = initialize_fn, next_step = next_fn\<rparr>"
    using assms by (simp add: base_accepts_iff state_consumed_def state_produced_def)
  have init: "result (type_signature initialize_fn) = FederatedType s SERVER ae"
    using assms(1) by simp
  have leaves:
    "list_all is_federated (flatten next_fn_param @ flatten (result (type_signature next_fn)))"
    using assms by (simp add: struct_flatten)
  have res: "getattr (result (type_signature next_fn)) ''result'' = Inr (FederatedType r SERVER ar)"
    and meas: "getattr (result (type_signature next_fn)) ''measurements''
                = Inr (FederatedType m SERVER am)"
    using assms by (simp_all add: struct_getattr)
  show ?thesis
    using base init assms(2) leaves assms(3,4) _ _ res assms(7) meas
    by (rule constructs) simp_all
qed

text \<open>An instance: the pair of the class documentation.\<close>

theorem valid_pair_constructs_witness:
  "FinalizerProcess_init assignable test_initialize_fn test_next_fn
     = Inr \<lparr>initialize = test_initialize_fn, next_step = test_next_fn\<rparr>"
  by (rule valid_pair_constructs
        [where s = int32 and ae = True
           and next_fn_param = "arguments [at_server int32,
                 at_server (weights_struct ModelWeights float32), at_server float32]"
           and n_state = None and n_weights = None and n_update = None
           and fs = "[(Some ''trainable'', float32), (Some ''non_trainable'', StructType [])]"
           and aw = True and u = float32 and au = True
           and r = "weights_struct ModelWeights float32" and ar = True
           and m = int32 and am = True])
     (simp_all add: examples)

text \<open>
  C10. When the earlier checks have passed and the second parameter element is a federated
  type placed at \<^verbatim>\<open>SERVER\<close>, the constructor raises \<^verbatim>\<open>ModelWeightsTypeError\<close> exactly when
  the member of that element is not a structure whose Python container is the class
  \<^verbatim>\<open>ModelWeights\<close> itself. Any other container, a subclass of \<^verbatim>\<open>ModelWeights\<close> included, is
  rejected, whatever the elements of the structure and whatever the assignability relation.
\<close>

theorem model_weights_container_is_required:
  assumes "MeasuredProcess_init initialize_fn next_fn = Inr self"
    and "result (type_signature initialize_fn) = FederatedType s SERVER ae"
    and "parameter (type_signature next_fn) = Some next_fn_param"
    and "list_all is_federated (flatten next_fn_param @ flatten (result (type_signature next_fn)))"
    and "is_struct next_fn_param"
    and "elements next_fn_param = [e_state, e_weights, e_update]"
    and "snd e_weights = FederatedType w SERVER aw"
  shows \<open>((\<exists>fs. w = StructWithPythonType fs ModelWeights) \<longrightarrow>
      (\<forall>msg. FinalizerProcess_init is_assignable_from initialize_fn next_fn
                \<noteq> Inl (ModelWeightsTypeError msg)))
    \<and> ((\<forall>fs. w \<noteq> StructWithPythonType fs ModelWeights) \<longrightarrow>
      FinalizerProcess_init is_assignable_from initialize_fn next_fn =
        Inl (ModelWeightsTypeError
         [Lit ''The second input argument of `next_fn` must have the `tff.learning.ModelWeights` container but found '',
          StrType (FederatedType w SERVER aw)]))\<close>
proof (intro conjI impI allI)
  fix msg
  assume "\<exists>fs. w = StructWithPythonType fs ModelWeights"
  then obtain fs where "w = StructWithPythonType fs ModelWeights" ..
  with assms show "FinalizerProcess_init is_assignable_from initialize_fn next_fn
      \<noteq> Inl (ModelWeightsTypeError msg)"
    using not_model_weights_error [where is_assignable_from = is_assignable_from and fs = fs]
    by simp
next
  assume "\<forall>fs. w \<noteq> StructWithPythonType fs ModelWeights"
  then have "\<not> is_struct_with_python w \<or> python_container w \<noteq> Some ModelWeights"
    using model_weights_container [of w] by blast
  with assms show \<open>FinalizerProcess_init is_assignable_from initialize_fn next_fn =
        Inl (ModelWeightsTypeError
         [Lit ''The second input argument of `next_fn` must have the `tff.learning.ModelWeights` container but found '',
          StrType (FederatedType w SERVER aw)])\<close>
    using raises_model_weights [where is_assignable_from = is_assignable_from and w = w]
    by (simp add: model_weights_msg_def)
qed

text \<open>
  An instance: the container is a subclass of \<^verbatim>\<open>ModelWeights\<close>, the elements are those of
  the model weights of the result, and the two structures are assignable to each other.
\<close>

theorem model_weights_container_is_required_witness:
  \<open>issubclass (PyClass ''MyWeights'' [ModelWeights]) ModelWeights
   \<and> assignable (weights_struct (PyClass ''MyWeights'' [ModelWeights]) float32)
                (weights_struct ModelWeights float32)
   \<and> FinalizerProcess_init assignable test_initialize_fn
       (next_finalizing (weights_struct (PyClass ''MyWeights'' [ModelWeights]) float32)
                        (weights_struct ModelWeights float32)) =
     Inl (ModelWeightsTypeError
         [Lit ''The second input argument of `next_fn` must have the `tff.learning.ModelWeights` container but found '',
          StrType (at_server (weights_struct (PyClass ''MyWeights'' [ModelWeights]) float32))])\<close>
  using model_weights_container_is_required
      [where initialize_fn = test_initialize_fn
         and next_fn = "next_finalizing (weights_struct (PyClass ''MyWeights'' [ModelWeights]) float32)
                          (weights_struct ModelWeights float32)"
         and self = "\<lparr>initialize = test_initialize_fn,
               next_step = next_finalizing
                 (weights_struct (PyClass ''MyWeights'' [ModelWeights]) float32)
                 (weights_struct ModelWeights float32)\<rparr>"
         and s = int32 and ae = True
         and next_fn_param = "arguments [at_server int32,
               at_server (weights_struct (PyClass ''MyWeights'' [ModelWeights]) float32),
               at_server float32]"
         and e_state = "(None, at_server int32)"
         and e_weights = "(None, at_server (weights_struct (PyClass ''MyWeights'' [ModelWeights]) float32))"
         and e_update = "(None, at_server float32)"
         and w = "weights_struct (PyClass ''MyWeights'' [ModelWeights]) float32" and aw = True
         and is_assignable_from = assignable]
  by (simp add: examples base_class)

text \<open>
  C9, as amended. After the constructor of the base class has accepted the pair, the
  checks are made in the order of \<open>validation_sequence\<close>, and the construction ends
  with the error of the earliest check that is violated, or succeeds when none is. The
  sequence has the parameter check and the check of the second parameter element in two
  parts each, with their own errors; its assignability check asks that the member type of
  the second parameter element be assignable from the member type of the result field.
  This holds for every pair whose parameter elements after the state, and whose result and
  measurements fields, are not themselves structures, so that the attributes the
  constructor reads exist. What is raised when the check of the leaves (the second of the
  sequence) is the earliest violated one is left open: the hypotheses exclude that case.
\<close>

theorem earliest_violated_check_decides:
  assumes base: "MeasuredProcess_init initialize_fn next_fn = Inr self"
    and param: "parameter (type_signature next_fn) = Some next_fn_param"
    and fields: "elements (result (type_signature next_fn))
                  = [(Some ''state'', st), (Some ''result'', rt), (Some ''measurements'', mt)]"
    and join: "\<not> is_federated (result (type_signature initialize_fn))
               \<or> list_all is_federated
                    (flatten next_fn_param @ flatten (result (type_signature next_fn)))"
    and flat: "list_all (\<lambda>f. \<not> is_struct (snd f)) (tl (elements next_fn_param))"
              "\<not> is_struct rt" "\<not> is_struct mt"
  shows "case earliest_violated is_assignable_from initialize_fn next_fn of
      None \<Rightarrow> FinalizerProcess_init is_assignable_from initialize_fn next_fn = Inr self
    | Some InitFederated \<Rightarrow>
        FinalizerProcess_init is_assignable_from initialize_fn next_fn =
          Inl (TemplateNotFederatedError
                (init_not_federated_msg (result (type_signature initialize_fn))))
    | Some NextFederated \<Rightarrow> False
    | Some StateAtServer \<Rightarrow>
        FinalizerProcess_init is_assignable_from initialize_fn next_fn =
          Inl (TemplatePlacementError (state_placement_msg (result (type_signature initialize_fn))))
    | Some ParameterIsStruct \<Rightarrow>
        FinalizerProcess_init is_assignable_from initialize_fn next_fn =
          Inl (TemplateNextFnNumArgsError (not_a_struct_msg next_fn_param))
    | Some ParameterHasThree \<Rightarrow>
        FinalizerProcess_init is_assignable_from initialize_fn next_fn =
          Inl (TemplateNextFnNumArgsError
                (num_args_msg (length (elements next_fn_param))
                  (joined [NL, Lit ''- ''] (map (\<lambda>f. [StrType (snd f)]) (elements next_fn_param)))))
    | Some SecondAtServer \<Rightarrow>
        FinalizerProcess_init is_assignable_from initialize_fn next_fn =
          Inl (TemplatePlacementError (second_arg_placement_msg (snd (elements next_fn_param ! 1))))
    | Some SecondIsModelWeights \<Rightarrow>
        FinalizerProcess_init is_assignable_from initialize_fn next_fn =
          Inl (ModelWeightsTypeError (model_weights_msg (snd (elements next_fn_param ! 1))))
    | Some ThirdAtServer \<Rightarrow>
        FinalizerProcess_init is_assignable_from initialize_fn next_fn =
          Inl (TemplatePlacementError (third_arg_placement_msg (snd (elements next_fn_param ! 2))))
    | Some ResultAtServer \<Rightarrow>
        FinalizerProcess_init is_assignable_from initialize_fn next_fn =
          Inl (TemplatePlacementError (result_placement_msg rt))
    | Some ResultAssignable \<Rightarrow>
        (\<exists>w pw aw r pr ar.
           snd (elements next_fn_param ! 1) = FederatedType w pw aw \<and> rt = FederatedType r pr ar \<and>
           FinalizerProcess_init is_assignable_from initialize_fn next_fn =
             Inl (FinalizerResultTypeError (result_type_msg w r)))
    | Some MeasurementsAtServer \<Rightarrow>
        FinalizerProcess_init is_assignable_from initialize_fn next_fn =
          Inl (TemplatePlacementError (measurements_placement_msg mt))"
proof (cases "is_federated (result (type_signature initialize_fn))")
  case False
  then have "earliest_violated is_assignable_from initialize_fn next_fn = Some InitFederated"
    by (simp add: sequence)
  moreover have "FinalizerProcess_init is_assignable_from initialize_fn next_fn =
      Inl (TemplateNotFederatedError (init_not_federated_msg (result (type_signature initialize_fn))))"
    using base False by (rule raises_init_not_federated)
  ultimately show ?thesis by simp
next
  case True
  with join have leaves: "list_all is_federated
      (flatten next_fn_param @ flatten (result (type_signature next_fn)))" by simp
  from True obtain s p ae where init: "result (type_signature initialize_fn) = FederatedType s p ae"
    by (auto dest: federated_cases)
  from base have rstruct: "is_struct (result (type_signature next_fn))"
    by (simp add: base_accepts_iff)
  have res: "getattr (result (type_signature next_fn)) ''result'' = Inr rt"
    and meas: "getattr (result (type_signature next_fn)) ''measurements'' = Inr mt"
    using rstruct fields by (simp_all add: struct_getattr)
  have "is_federated rt" "is_federated mt"
    using leaves rstruct fields flat(2,3) by (simp_all add: struct_flatten leaf_flatten)
  then obtain r pr ar m pm am where rt: "rt = FederatedType r pr ar" and mt: "mt = FederatedType m pm am"
    by (auto dest!: federated_cases)
  note early = True param leaves init
  show ?thesis
  proof (cases "p = SERVER")
    case False
    then have "earliest_violated is_assignable_from initialize_fn next_fn = Some StateAtServer"
      using early by (simp add: sequence)
    moreover have "FinalizerProcess_init is_assignable_from initialize_fn next_fn =
        Inl (TemplatePlacementError (state_placement_msg (FederatedType s p ae)))"
      using base init param leaves False by (rule raises_state_placement)
    ultimately show ?thesis using init by simp
  next
    case server: True
    with init have init: "result (type_signature initialize_fn) = FederatedType s SERVER ae" by simp
    show ?thesis
    proof (cases "is_struct next_fn_param")
      case False
      then have "earliest_violated is_assignable_from initialize_fn next_fn = Some ParameterIsStruct"
        using early server by (simp add: sequence)
      moreover have "FinalizerProcess_init is_assignable_from initialize_fn next_fn =
          Inl (TemplateNextFnNumArgsError (not_a_struct_msg next_fn_param))"
        using base init param leaves False by (rule raises_not_a_struct)
      ultimately show ?thesis by simp
    next
      case struct: True
      show ?thesis
      proof (cases "length (elements next_fn_param) = 3")
        case False
        then have "earliest_violated is_assignable_from initialize_fn next_fn = Some ParameterHasThree"
          using early server struct by (simp add: sequence)
        moreover have "FinalizerProcess_init is_assignable_from initialize_fn next_fn =
          Inl (TemplateNextFnNumArgsError
                (num_args_msg (length (elements next_fn_param))
                  (joined [NL, Lit ''- ''] (map (\<lambda>f. [StrType (snd f)]) (elements next_fn_param)))))"
          using base init param leaves struct False by (rule raises_num_args)
        ultimately show ?thesis by simp
      next
        case True
        then obtain e_state e_weights e_update
          where els: "elements next_fn_param = [e_state, e_weights, e_update]"
          by (auto simp: length_three)
        have "is_federated (snd e_weights)" "is_federated (snd e_update)"
          using leaves struct els flat(1) by (simp_all add: struct_flatten leaf_flatten)
        then obtain w pw aw u pu au
          where second: "snd e_weights = FederatedType w pw aw"
            and third: "snd e_update = FederatedType u pu au"
          by (auto dest!: federated_cases)
        note shape = early server struct els second third fields rt mt
        show ?thesis
        proof (cases "pw = SERVER")
          case False
          then have "earliest_violated is_assignable_from initialize_fn next_fn = Some SecondAtServer"
            using shape by (simp add: sequence)
          moreover have "FinalizerProcess_init is_assignable_from initialize_fn next_fn =
              Inl (TemplatePlacementError (second_arg_placement_msg (FederatedType w pw aw)))"
            using base init param leaves struct els second False by (rule raises_second_placement)
          ultimately show ?thesis using els second by simp
        next
          case True
          with second have second: "snd e_weights = FederatedType w SERVER aw" by simp
          note shape = early server struct els second third fields rt mt
          show ?thesis
          proof (cases "is_struct_with_python w \<and> python_container w = Some ModelWeights")
            case False
            then have "earliest_violated is_assignable_from initialize_fn next_fn
                = Some SecondIsModelWeights"
              using shape by (auto simp add: sequence)
            moreover have "FinalizerProcess_init is_assignable_from initialize_fn next_fn =
                Inl (ModelWeightsTypeError (model_weights_msg (FederatedType w SERVER aw)))"
              using base init param leaves struct els second
              by (rule raises_model_weights) (use False in simp)
            ultimately show ?thesis using els second by simp
          next
            case container: True
            then obtain fs where w: "w = StructWithPythonType fs ModelWeights"
              by (auto simp: model_weights_container)
            with second
            have weights: "snd e_weights = FederatedType (StructWithPythonType fs ModelWeights) SERVER aw"
              by simp
            show ?thesis
            proof (cases "pu = SERVER")
              case False
              then have "earliest_violated is_assignable_from initialize_fn next_fn
                  = Some ThirdAtServer"
                using shape w by (simp add: sequence)
              moreover have "FinalizerProcess_init is_assignable_from initialize_fn next_fn =
                  Inl (TemplatePlacementError (third_arg_placement_msg (FederatedType u pu au)))"
                using base init param leaves struct els weights third False
                by (rule raises_third_placement)
              ultimately show ?thesis using els third by simp
            next
              case True
              with third have update: "snd e_update = FederatedType u SERVER au" by simp
              note shape = early server struct els weights update fields rt mt
              show ?thesis
              proof (cases "pr = SERVER")
                case False
                then have "earliest_violated is_assignable_from initialize_fn next_fn
                    = Some ResultAtServer"
                  using shape by (simp add: sequence)
                moreover have "FinalizerProcess_init is_assignable_from initialize_fn next_fn =
                    Inl (TemplatePlacementError (result_placement_msg (FederatedType r pr ar)))"
                  using base init param leaves struct els weights update res [unfolded rt] False
                  by (rule raises_result_placement)
                ultimately show ?thesis using rt by simp
              next
                case True
                with rt have rt': "rt = FederatedType r SERVER ar" by simp
                note shape = early server struct els weights update fields rt' mt
                show ?thesis
                proof (cases "is_assignable_from (StructWithPythonType fs ModelWeights) r")
                  case False
                  then have "earliest_violated is_assignable_from initialize_fn next_fn
                      = Some ResultAssignable"
                    using shape by (simp add: sequence)
                  moreover have "FinalizerProcess_init is_assignable_from initialize_fn next_fn =
                      Inl (FinalizerResultTypeError
                            (result_type_msg (StructWithPythonType fs ModelWeights) r))"
                    using base init param leaves struct els weights update res [unfolded rt'] False
                    by (rule raises_result_type)
                  ultimately show ?thesis using els weights rt' by simp
                next
                  case assignable: True
                  show ?thesis
                  proof (cases "pm = SERVER")
                    case False
                    then have "earliest_violated is_assignable_from initialize_fn next_fn
                        = Some MeasurementsAtServer"
                      using shape assignable by (simp add: sequence)
                    moreover have "FinalizerProcess_init is_assignable_from initialize_fn next_fn =
                        Inl (TemplatePlacementError
                              (measurements_placement_msg (FederatedType m pm am)))"
                      using base init param leaves struct els weights update res [unfolded rt']
                        assignable meas [unfolded mt] False
                      by (rule raises_measurements_placement)
                    ultimately show ?thesis using mt by simp
                  next
                    case True
                    then have "earliest_violated is_assignable_from initialize_fn next_fn = None"
                      using shape assignable by (simp add: sequence)
                    moreover have "FinalizerProcess_init is_assignable_from initialize_fn next_fn
                        = Inr self"
                      using base init param leaves struct els weights update res [unfolded rt']
                        assignable meas [unfolded mt, unfolded True]
                      by (rule constructs)
                    ultimately show ?thesis by simp
                  qed
                qed
              qed
            qed
          qed
        qed
      qed
    qed
  qed
qed

text \<open>
  Two instances, each violating several checks at once. An initializer returning an
  unplaced \<^verbatim>\<open>int32\<close> with a step function of two arguments: the error is that of the
  initializer's result. A pair with the update and the measurements placed at the clients:
  the error is that of the third parameter element.
\<close>

theorem earliest_violated_check_decides_witness:
  "\<not> holds assignable InitFederated (initialize_returning int32)
        (next_taking (arguments [int32, at_server (weights_struct ModelWeights float32)])
           int32 (at_server float32) (at_server float32))
   \<and> \<not> holds assignable ParameterHasThree (initialize_returning int32)
        (next_taking (arguments [int32, at_server (weights_struct ModelWeights float32)])
           int32 (at_server float32) (at_server float32))
   \<and> FinalizerProcess_init assignable (initialize_returning int32)
        (next_taking (arguments [int32, at_server (weights_struct ModelWeights float32)])
           int32 (at_server float32) (at_server float32))
      = Inl (TemplateNotFederatedError (init_not_federated_msg int32))
   \<and> \<not> holds assignable ThirdAtServer test_initialize_fn
        (next_taking
           (arguments [at_server int32, at_server (weights_struct ModelWeights float32),
                       at_clients float32])
           (at_server int32) (at_server (weights_struct ModelWeights float32)) (at_clients int32))
   \<and> \<not> holds assignable MeasurementsAtServer test_initialize_fn
        (next_taking
           (arguments [at_server int32, at_server (weights_struct ModelWeights float32),
                       at_clients float32])
           (at_server int32) (at_server (weights_struct ModelWeights float32)) (at_clients int32))
   \<and> FinalizerProcess_init assignable test_initialize_fn
        (next_taking
           (arguments [at_server int32, at_server (weights_struct ModelWeights float32),
                       at_clients float32])
           (at_server int32) (at_server (weights_struct ModelWeights float32)) (at_clients int32))
      = Inl (TemplatePlacementError (third_arg_placement_msg (at_clients float32)))"
proof (intro conjI)
  show "FinalizerProcess_init assignable (initialize_returning int32)
        (next_taking (arguments [int32, at_server (weights_struct ModelWeights float32)])
           int32 (at_server float32) (at_server float32))
      = Inl (TemplateNotFederatedError (init_not_federated_msg int32))"
    using earliest_violated_check_decides
      [where initialize_fn = "initialize_returning int32"
         and next_fn = "next_taking (arguments [int32, at_server (weights_struct ModelWeights float32)])
               int32 (at_server float32) (at_server float32)"
         and self = "\<lparr>initialize = initialize_returning int32,
               next_step = next_taking
                 (arguments [int32, at_server (weights_struct ModelWeights float32)])
                 int32 (at_server float32) (at_server float32)\<rparr>"
         and next_fn_param = "arguments [int32, at_server (weights_struct ModelWeights float32)]"
         and st = int32 and rt = "at_server float32" and mt = "at_server float32"
         and is_assignable_from = assignable]
    by (simp add: examples base_class sequence)
  show "FinalizerProcess_init assignable test_initialize_fn
        (next_taking
           (arguments [at_server int32, at_server (weights_struct ModelWeights float32),
                       at_clients float32])
           (at_server int32) (at_server (weights_struct ModelWeights float32)) (at_clients int32))
      = Inl (TemplatePlacementError (third_arg_placement_msg (at_clients float32)))"
    using earliest_violated_check_decides
      [where initialize_fn = test_initialize_fn
         and next_fn = "next_taking
           (arguments [at_server int32, at_server (weights_struct ModelWeights float32),
                       at_clients float32])
           (at_server int32) (at_server (weights_struct ModelWeights float32)) (at_clients int32)"
         and self = "\<lparr>initialize = test_initialize_fn,
               next_step = next_taking
                 (arguments [at_server int32, at_server (weights_struct ModelWeights float32),
                             at_clients float32])
                 (at_server int32) (at_server (weights_struct ModelWeights float32))
                 (at_clients int32)\<rparr>"
         and next_fn_param = "arguments [at_server int32,
               at_server (weights_struct ModelWeights float32), at_clients float32]"
         and st = "at_server int32" and rt = "at_server (weights_struct ModelWeights float32)"
         and mt = "at_clients int32"
         and is_assignable_from = assignable]
    by (simp add: examples base_class sequence)
qed (simp_all add: examples sequence)

text \<open>
  C9 as stated takes the nine checks of the specification with the errors listed there;
  the fifth, on the second parameter element (placed at the server, and a model weights
  container), has the container error. Here the first four hold, the fifth is the earliest
  violated one (the element is placed at the clients), the ninth is violated too, and the
  error raised is a placement error.
\<close>

theorem earliest_violated_check_counterexample:
  "holds assignable InitFederated test_initialize_fn
        (next_taking
           (arguments [at_server int32, at_clients (weights_struct ModelWeights float32),
                       at_server float32])
           (at_server int32) (at_server (weights_struct ModelWeights float32)) (at_clients int32))
   \<and> holds assignable NextFederated test_initialize_fn
        (next_taking
           (arguments [at_server int32, at_clients (weights_struct ModelWeights float32),
                       at_server float32])
           (at_server int32) (at_server (weights_struct ModelWeights float32)) (at_clients int32))
   \<and> holds assignable StateAtServer test_initialize_fn
        (next_taking
           (arguments [at_server int32, at_clients (weights_struct ModelWeights float32),
                       at_server float32])
           (at_server int32) (at_server (weights_struct ModelWeights float32)) (at_clients int32))
   \<and> holds assignable ParameterIsStruct test_initialize_fn
        (next_taking
           (arguments [at_server int32, at_clients (weights_struct ModelWeights float32),
                       at_server float32])
           (at_server int32) (at_server (weights_struct ModelWeights float32)) (at_clients int32))
   \<and> holds assignable ParameterHasThree test_initialize_fn
        (next_taking
           (arguments [at_server int32, at_clients (weights_struct ModelWeights float32),
                       at_server float32])
           (at_server int32) (at_server (weights_struct ModelWeights float32)) (at_clients int32))
   \<and> \<not> (holds assignable SecondAtServer test_initialize_fn
        (next_taking
           (arguments [at_server int32, at_clients (weights_struct ModelWeights float32),
                       at_server float32])
           (at_server int32) (at_server (weights_struct ModelWeights float32)) (at_clients int32))
        \<and> holds assignable SecondIsModelWeights test_initialize_fn
        (next_taking
           (arguments [at_server int32, at_clients (weights_struct ModelWeights float32),
                       at_server float32])
           (at_server int32) (at_server (weights_struct ModelWeights float32)) (at_clients int32)))
   \<and> \<not> holds assignable MeasurementsAtServer test_initialize_fn
        (next_taking
           (arguments [at_server int32, at_clients (weights_struct ModelWeights float32),
                       at_server float32])
           (at_server int32) (at_server (weights_struct ModelWeights float32)) (at_clients int32))
   \<and> FinalizerProcess_init assignable test_initialize_fn
        (next_taking
           (arguments [at_server int32, at_clients (weights_struct ModelWeights float32),
                       at_server float32])
           (at_server int32) (at_server (weights_struct ModelWeights float32)) (at_clients int32))
      = Inl (TemplatePlacementError
              (second_arg_placement_msg (at_clients (weights_struct ModelWeights float32))))"
  by (simp add: examples base_class sequence FinalizerProcess_init_def Let_def)

end
